theory Spec2Isabelle
  imports Main "HOL-Library.Word" "HOL-Library.Signed_Division"
begin

section \<open>Machine integers\<close>

text \<open>
  A C++ \<open>int\<close> is a 32-bit word read in two's complement (\<open>sint\<close>); \<open>+\<close>, \<open>-\<close> and
  \<open>*\<close> wrap around. Comparisons of the source are comparisons of the \<open>sint\<close> values.
  The C++ operator \<open>/\<close> truncates towards zero and has no value for a zero divisor or for
  \<open>INT_MIN / -1\<close>; both are an error of the model.
\<close>

type_synonym int32 = "32 word"
type_synonym int64 = "64 word"

text \<open>
  The ways a call can fail instead of returning: a \<open>DCHECK\<close> of the source, or of an
  accessor it calls, does not hold (as in a debug build, where it is fatal); a division
  has no value; \<open>value()\<close> is taken of an empty optional; the frame iterator finds no
  JavaScript frame.
\<close>

datatype error = DCheckFailed | ArithmeticTrap | BadOptionalAccess | NoJavaScriptFrame

definition int32_div :: "int32 \<Rightarrow> int32 \<Rightarrow> error + int32" where
  "int32_div a b =
     (if b = 0 \<or> (sint a = - (2 ^ 31) \<and> sint b = - 1) then Inl ArithmeticTrap
      else Inr (word_of_int (sint a sdiv sint b)))"

text \<open>\<open>std::min({a, b})\<close> on \<open>int\<close>: the smaller one, the first one when they are equal.\<close>

definition std_min :: "int32 \<Rightarrow> int32 \<Rightarrow> int32" where
  "std_min a b = (if sint b < sint a then b else a)"

section \<open>Data model of the tiering manager\<close>

text \<open>
  Modelled from the spec: the enumeration \<open>CodeKind\<close> is declared outside the sources;
  the tiers are the ones the spec lists for \<open>active_tier\<close> (interpreter, baseline,
  mid-tier, top-tier), and the unoptimized JS function tiers are the first two.
\<close>

datatype CodeKind = INTERPRETED_FUNCTION | BASELINE | MAGLEV | TURBOFAN

definition CodeKindIsUnoptimizedJSFunction :: "CodeKind \<Rightarrow> bool" where
  "CodeKindIsUnoptimizedJSFunction kind = (kind = INTERPRETED_FUNCTION \<or> kind = BASELINE)"

datatype ConcurrencyMode = kNotConcurrent | kConcurrent

datatype OptimizationReason = kDoNotOptimize | kHotAndStable | kSmallFunction

fun OptimizationReasonToString :: "OptimizationReason \<Rightarrow> string" where
  "OptimizationReasonToString kDoNotOptimize = ''do not optimize''"
| "OptimizationReasonToString kHotAndStable = ''hot and stable''"
| "OptimizationReasonToString kSmallFunction = ''small function''"

record OptimizationDecision =
  optimization_reason :: OptimizationReason
  code_kind :: CodeKind
  concurrency_mode :: ConcurrencyMode

definition Maglev :: OptimizationDecision where
  "Maglev = \<lparr>optimization_reason = kHotAndStable, code_kind = MAGLEV,
             concurrency_mode = kNotConcurrent\<rparr>"

definition TurbofanHotAndStable :: OptimizationDecision where
  "TurbofanHotAndStable = \<lparr>optimization_reason = kHotAndStable, code_kind = TURBOFAN,
             concurrency_mode = kConcurrent\<rparr>"

definition TurbofanSmallFunction :: OptimizationDecision where
  "TurbofanSmallFunction = \<lparr>optimization_reason = kSmallFunction, code_kind = TURBOFAN,
             concurrency_mode = kConcurrent\<rparr>"

definition DoNotOptimize :: OptimizationDecision where
  "DoNotOptimize = \<lparr>optimization_reason = kDoNotOptimize, code_kind = TURBOFAN,
             concurrency_mode = kConcurrent\<rparr>"

definition should_optimize :: "OptimizationDecision \<Rightarrow> bool" where
  "should_optimize d = (optimization_reason d \<noteq> kDoNotOptimize)"

text \<open>The flags the tiering manager reads (the \<open>FLAG_\<close> globals of the source).\<close>

record Flags =
  FLAG_use_osr :: bool
  FLAG_maglev :: bool
  FLAG_always_osr :: bool
  FLAG_lazy_feedback_allocation :: bool
  FLAG_baseline_batch_compilation :: bool
  FLAG_testing_d8_test_runner :: bool
  FLAG_trace_opt :: bool
  FLAG_trace_opt_verbose :: bool
  FLAG_trace_osr :: bool
  FLAG_interrupt_budget :: int32
  FLAG_interrupt_budget_for_maglev :: int32
  FLAG_interrupt_budget_for_feedback_allocation :: int32
  FLAG_interrupt_budget_factor_for_feedback_allocation :: int32
  FLAG_ticks_before_optimization :: int32
  FLAG_bytecode_size_allowance_per_tick :: int32
  FLAG_max_bytecode_size_for_early_opt :: int32

text \<open>
  Modelled from the spec: the classes \<open>BytecodeArray\<close>, \<open>SharedFunctionInfo\<close>,
  \<open>FeedbackVector\<close>, \<open>JSFunction\<close> and the frame classes are declared outside the
  sources. Each is a record of the attributes the controller reads or writes. Objects live
  in a store and are referred to by their address (a \<open>nat\<close>), so that closures sharing one
  shared function info, and shared infos sharing one bytecode array, alias as in the heap.

  The field \<open>osr_loop_nesting_level\<close> is, in the words of the spec, "u8, clamped to
  \<open>max_loop_nesting_marker\<close>"; the accessors of the source take and return \<open>int\<close>. The
  setter keeps the depth between 0 and the marker and stores it in the 8 bits of the
  field. \<open>GetJumpTargetOffset\<close> and \<open>GetImmediateOperand\<close> are what a
  \<open>BytecodeArrayIterator\<close> positioned at an offset reads there.
\<close>

record BytecodeArray =
  bytecode_length :: int32
  osr_loop_nesting_level_field :: "8 word"
  GetJumpTargetOffset :: "int32 \<Rightarrow> int32"
  GetImmediateOperand :: "int32 \<Rightarrow> nat \<Rightarrow> int32"

definition osr_loop_nesting_level :: "BytecodeArray \<Rightarrow> int32" where
  "osr_loop_nesting_level b = ucast (osr_loop_nesting_level_field b)"

definition clamp_to_marker :: "int32 \<Rightarrow> int32 \<Rightarrow> int32" where
  "clamp_to_marker marker depth =
     (if sint depth < 0 then 0 else if sint marker < sint depth then marker else depth)"

definition set_osr_loop_nesting_level :: "int32 \<Rightarrow> BytecodeArray \<Rightarrow> int32 \<Rightarrow> BytecodeArray" where
  "set_osr_loop_nesting_level marker b depth =
     b\<lparr>osr_loop_nesting_level_field := ucast (clamp_to_marker marker depth)\<rparr>"

datatype OSRCodeCacheStateOfSFI = kNotCached | kCached

text \<open>The test \<open>osr_code_cache_state() > kNotCached\<close>; \<open>kNotCached\<close> is the least state.\<close>

definition osr_code_cache_state_gt_kNotCached :: "OSRCodeCacheStateOfSFI \<Rightarrow> bool" where
  "osr_code_cache_state_gt_kNotCached s = (s \<noteq> kNotCached)"

record SharedFunctionInfo =
  bytecode_array :: nat
  is_compiled :: bool
  HasBytecodeArray :: bool
  IsUserJavaScript :: bool
  optimization_disabled :: bool
  osr_code_cache_state :: OSRCodeCacheStateOfSFI
  CanCompileWithBaseline :: bool

record FeedbackVector =
  profiler_ticks :: int32
  invocation_count :: int32

record JSFunction =
  shared :: nat
  native_context :: nat
  feedback_vector :: "FeedbackVector option"
  interrupt_budget :: int32
  GetActiveTier :: "CodeKind option"
  IsInOptimizationQueue :: bool
  IsMarkedForOptimization :: bool
  IsMarkedForConcurrentOptimization :: bool
  HasAvailableOptimizedCode :: bool

text \<open>
  A function has a feedback vector or not; the accessor \<open>feedback_vector()\<close> asserts that
  it has one.
\<close>

definition has_feedback_vector :: "JSFunction \<Rightarrow> bool" where
  "has_feedback_vector f = (feedback_vector f \<noteq> None)"

definition ActiveTierIsBaseline :: "JSFunction \<Rightarrow> bool" where
  "ActiveTierIsBaseline f = (GetActiveTier f = Some BASELINE)"

record JavaScriptFrame =
  frame_function :: nat
  is_unoptimized :: bool
  frame_bytecode_array :: nat
  GetBytecodeOffset :: int32

text \<open>
  What the controller asks of its collaborators is recorded in order: trace lines, the
  marking of a function for optimization, and the baseline compile requests.
\<close>

datatype Event =
    TraceInOptimizationQueue nat
  | TraceHeuristicOptimizationDisallowed nat
  | TraceRecompile nat OptimizationReason CodeKind
  | TraceOSRArmingBackEdges nat
  | TraceNotYetOptimizing nat int32 int32 bool
  | MarkForOptimizationCall nat CodeKind ConcurrencyMode
  | EnqueueFunction nat
  | CompileBaselineCall nat

text \<open>
  The isolate with its heap, and the tiering manager's own member \<open>any_ic_changed_\<close>.
  \<open>kMaxLoopNestingMarker\<close> is the constant \<open>AbstractCode::kMaxLoopNestingMarker\<close>, declared
  outside the sources and taken as a parameter. \<open>osr_optimized_code_cache c s\<close> is what
  \<open>GetBytecodeOffsetsFromSFI\<close> returns for shared info \<open>s\<close> in native context \<open>c\<close>;
  \<open>IsHeuristicOptimizationAllowed\<close> is the answer of the pending optimization table;
  \<open>baseline_compile_result f\<close> is the active tier of \<open>f\<close> after a synchronous baseline
  compile, whose outcome the controller does not decide; \<open>js_frames\<close> is the stack of
  JavaScript frames, topmost first.
\<close>

record Isolate =
  flags :: Flags
  use_optimizer :: bool
  kMaxLoopNestingMarker :: int32
  js_functions :: "nat \<Rightarrow> JSFunction"
  shared_infos :: "nat \<Rightarrow> SharedFunctionInfo"
  bytecode_arrays :: "nat \<Rightarrow> BytecodeArray"
  osr_optimized_code_cache :: "nat \<Rightarrow> nat \<Rightarrow> int32 list"
  IsHeuristicOptimizationAllowed :: "nat \<Rightarrow> bool"
  baseline_compile_result :: "nat \<Rightarrow> CodeKind option"
  js_frames :: "JavaScriptFrame list"
  any_ic_changed :: bool
  events :: "Event list"

definition emit :: "Event \<Rightarrow> Isolate \<Rightarrow> Isolate" where
  "emit e isolate = isolate\<lparr>events := events isolate @ [e]\<rparr>"

definition GetBytecodeArray :: "Isolate \<Rightarrow> nat \<Rightarrow> BytecodeArray" where
  "GetBytecodeArray isolate sfi = bytecode_arrays isolate (bytecode_array (shared_infos isolate sfi))"

definition write_osr_loop_nesting_level :: "nat \<Rightarrow> int32 \<Rightarrow> Isolate \<Rightarrow> Isolate" where
  "write_osr_loop_nesting_level b depth isolate =
     isolate\<lparr>bytecode_arrays := (bytecode_arrays isolate)
        (b := set_osr_loop_nesting_level (kMaxLoopNestingMarker isolate)
                (bytecode_arrays isolate b) depth)\<rparr>"

section \<open>The tiering manager\<close>

definition kOSRBytecodeSizeAllowanceBase :: int32 where
  "kOSRBytecodeSizeAllowanceBase = 119"

definition kOSRBytecodeSizeAllowancePerTick :: int32 where
  "kOSRBytecodeSizeAllowancePerTick = 44"

text \<open>
  Modelled from the spec: \<open>JSFunction::MarkForOptimization\<close> is outside the sources. It
  marks the function for optimization at the chosen tier and concurrency mode; the request
  is recorded with both.
\<close>

definition MarkForOptimization :: "nat \<Rightarrow> CodeKind \<Rightarrow> ConcurrencyMode \<Rightarrow> Isolate \<Rightarrow> Isolate" where
  "MarkForOptimization function kind mode isolate =
     emit (MarkForOptimizationCall function kind mode)
       (isolate\<lparr>js_functions := (js_functions isolate)
          (function := (if mode = kConcurrent
             then (js_functions isolate function)\<lparr>IsMarkedForConcurrentOptimization := True\<rparr>
             else (js_functions isolate function)\<lparr>IsMarkedForOptimization := True\<rparr>))\<rparr>)"

definition Optimize :: "Isolate \<Rightarrow> nat \<Rightarrow> CodeKind \<Rightarrow> OptimizationDecision \<Rightarrow> error + Isolate" where
  "Optimize isolate function kind d =
     (if \<not> should_optimize d then Inl DCheckFailed
      else
        let isolate1 = (if FLAG_trace_opt (flags isolate)
                        then emit (TraceRecompile function (optimization_reason d) kind) isolate
                        else isolate)
        in Inr (MarkForOptimization function (code_kind d) (concurrency_mode d) isolate1))"

definition AttemptOnStackReplacement :: "Isolate \<Rightarrow> JavaScriptFrame \<Rightarrow> int32 \<Rightarrow> error + Isolate" where
  "AttemptOnStackReplacement isolate frame loop_nesting_levels =
     (let function = frame_function frame;
          sfi = shared_infos isolate (shared (js_functions isolate function))
      in if \<not> FLAG_use_osr (flags isolate) \<or> \<not> IsUserJavaScript sfi then Inr isolate
         else if optimization_disabled sfi then Inr isolate
         else
           let isolate1 = (if FLAG_trace_osr (flags isolate)
                           then emit (TraceOSRArmingBackEdges function) isolate else isolate)
           in if \<not> is_unoptimized frame then Inl DCheckFailed
              else
                let level = osr_loop_nesting_level
                              (bytecode_arrays isolate1 (frame_bytecode_array frame))
                in Inr (write_osr_loop_nesting_level (frame_bytecode_array frame)
                          (std_min (level + loop_nesting_levels) (kMaxLoopNestingMarker isolate1))
                          isolate1))"

definition TiersUpToMaglev :: "Flags \<Rightarrow> CodeKind \<Rightarrow> bool" where
  "TiersUpToMaglev fl kind = (FLAG_maglev fl \<and> CodeKindIsUnoptimizedJSFunction kind)"

definition TiersUpToMaglevOpt :: "Flags \<Rightarrow> CodeKind option \<Rightarrow> bool" where
  "TiersUpToMaglevOpt fl kind = (case kind of None \<Rightarrow> False | Some k \<Rightarrow> TiersUpToMaglev fl k)"

definition InterruptBudgetFor :: "Isolate \<Rightarrow> nat \<Rightarrow> error + int32" where
  "InterruptBudgetFor isolate function =
     (let f = js_functions isolate function in
      if has_feedback_vector f
      then Inr (if TiersUpToMaglevOpt (flags isolate) (GetActiveTier f)
                then FLAG_interrupt_budget_for_maglev (flags isolate)
                else FLAG_interrupt_budget (flags isolate))
      else if \<not> is_compiled (shared_infos isolate (shared f)) then Inl DCheckFailed
      else Inr (bytecode_length (GetBytecodeArray isolate (shared f)) *
                FLAG_interrupt_budget_factor_for_feedback_allocation (flags isolate)))"

definition InitialInterruptBudget :: "Flags \<Rightarrow> int32" where
  "InitialInterruptBudget fl =
     (if FLAG_lazy_feedback_allocation fl
      then FLAG_interrupt_budget_for_feedback_allocation fl
      else FLAG_interrupt_budget fl)"

text \<open>
  \<open>MaybeOSR\<close> calls \<open>AttemptOnStackReplacement\<close> with its default argument, one nesting
  level. The allowance is computed on \<open>int\<close> and then widened to \<open>int64_t\<close>.
\<close>

definition MaybeOSR :: "Isolate \<Rightarrow> nat \<Rightarrow> JavaScriptFrame \<Rightarrow> error + (Isolate \<times> bool)" where
  "MaybeOSR isolate function frame =
     (let f = js_functions isolate function in
      case feedback_vector f of
        None \<Rightarrow> Inl DCheckFailed
      | Some vector \<Rightarrow>
          let ticks = profiler_ticks vector in
          if IsMarkedForOptimization f \<or> IsMarkedForConcurrentOptimization f \<or>
             HasAvailableOptimizedCode f
          then
            let allowance = (scast (kOSRBytecodeSizeAllowanceBase +
                                    ticks * kOSRBytecodeSizeAllowancePerTick) :: int64)
            in if sint (bytecode_length (GetBytecodeArray isolate (shared f))) \<le> sint allowance
               then (case AttemptOnStackReplacement isolate frame 1 of
                       Inl e \<Rightarrow> Inl e
                     | Inr isolate1 \<Rightarrow> Inr (isolate1, True))
               else Inr (isolate, True)
          else Inr (isolate, False))"

definition ShouldOptimizeAsSmallFunction :: "Flags \<Rightarrow> int32 \<Rightarrow> bool \<Rightarrow> bool" where
  "ShouldOptimizeAsSmallFunction fl bytecode_size ic_changed =
     (\<not> ic_changed \<and> sint bytecode_size < sint (FLAG_max_bytecode_size_for_early_opt fl))"

text \<open>
  The loop of \<open>ShouldOptimize\<close> over the cached jump offsets: the first offset whose loop
  range \<open>[jump_target_offset, jump_offset]\<close> holds the current offset.
\<close>

fun osr_cache_scan :: "BytecodeArray \<Rightarrow> int32 \<Rightarrow> int32 list \<Rightarrow> int32 option" where
  "osr_cache_scan bytecode current_offset [] = None"
| "osr_cache_scan bytecode current_offset (jump_offset # bytecode_offsets) =
     (let jump_target_offset = GetJumpTargetOffset bytecode jump_offset in
      if sint current_offset \<le> sint jump_offset \<and> sint jump_target_offset \<le> sint current_offset
      then Some jump_offset
      else osr_cache_scan bytecode current_offset bytecode_offsets)"

definition osr_cache_hit :: "Isolate \<Rightarrow> nat \<Rightarrow> JavaScriptFrame \<Rightarrow> int32 option" where
  "osr_cache_hit isolate function frame =
     (let f = js_functions isolate function in
      if osr_code_cache_state_gt_kNotCached (osr_code_cache_state (shared_infos isolate (shared f)))
         \<and> is_unoptimized frame
      then osr_cache_scan (GetBytecodeArray isolate (shared f)) (GetBytecodeOffset frame)
             (osr_optimized_code_cache isolate (native_context f) (shared f))
      else None)"

definition ShouldOptimize ::
  "Isolate \<Rightarrow> nat \<Rightarrow> CodeKind \<Rightarrow> JavaScriptFrame \<Rightarrow> error + (Isolate \<times> OptimizationDecision)" where
  "ShouldOptimize isolate function kind frame =
     (let f = js_functions isolate function in
      if GetActiveTier f \<noteq> Some kind then Inl DCheckFailed
      else if TiersUpToMaglev (flags isolate) kind then Inr (isolate, Maglev)
      else if kind = TURBOFAN then Inr (isolate, DoNotOptimize)
      else
        let bytecode = GetBytecodeArray isolate (shared f) in
        case osr_cache_hit isolate function frame of
          Some jump_offset \<Rightarrow>
            Inr (write_osr_loop_nesting_level (bytecode_array (shared_infos isolate (shared f)))
                   (GetImmediateOperand bytecode jump_offset 1 + 1) isolate,
                 TurbofanHotAndStable)
        | None \<Rightarrow>
            (case feedback_vector f of
               None \<Rightarrow> Inl DCheckFailed
             | Some vector \<Rightarrow>
                 let ticks = profiler_ticks vector in
                 (case int32_div (bytecode_length bytecode)
                         (FLAG_bytecode_size_allowance_per_tick (flags isolate)) of
                    Inl e \<Rightarrow> Inl e
                  | Inr size_ticks \<Rightarrow>
                      let ticks_for_optimization =
                            FLAG_ticks_before_optimization (flags isolate) + size_ticks
                      in if sint ticks_for_optimization \<le> sint ticks
                         then Inr (isolate, TurbofanHotAndStable)
                         else if ShouldOptimizeAsSmallFunction (flags isolate)
                                   (bytecode_length bytecode) (any_ic_changed isolate)
                         then Inr (isolate, TurbofanSmallFunction)
                         else if FLAG_trace_opt_verbose (flags isolate)
                         then Inr (emit (TraceNotYetOptimizing function ticks
                                           ticks_for_optimization (any_ic_changed isolate)) isolate,
                                   DoNotOptimize)
                         else Inr (isolate, DoNotOptimize))))"

definition MaybeOptimizeFrame ::
  "Isolate \<Rightarrow> nat \<Rightarrow> JavaScriptFrame \<Rightarrow> CodeKind \<Rightarrow> error + Isolate" where
  "MaybeOptimizeFrame isolate function frame kind =
     (let f = js_functions isolate function in
      if IsInOptimizationQueue f
      then Inr (if FLAG_trace_opt_verbose (flags isolate)
                then emit (TraceInOptimizationQueue function) isolate else isolate)
      else if FLAG_testing_d8_test_runner (flags isolate) \<and>
              \<not> IsHeuristicOptimizationAllowed isolate function
      then Inr (if FLAG_trace_opt_verbose (flags isolate)
                then emit (TraceHeuristicOptimizationDisallowed function) isolate else isolate)
      else if optimization_disabled (shared_infos isolate (shared f)) then Inr isolate
      else
        case (if is_unoptimized frame
              then (if FLAG_always_osr (flags isolate)
                    then (case AttemptOnStackReplacement isolate frame
                                 (kMaxLoopNestingMarker isolate) of
                            Inl e \<Rightarrow> Inl e
                          | Inr isolate1 \<Rightarrow> Inr (isolate1, False))
                    else MaybeOSR isolate function frame)
              else Inr (isolate, False)) of
          Inl e \<Rightarrow> Inl e
        | Inr (isolate1, osr_only) \<Rightarrow>
            if osr_only then Inr isolate1
            else
              (case ShouldOptimize isolate1 function kind frame of
                 Inl e \<Rightarrow> Inl e
               | Inr (isolate2, d) \<Rightarrow>
                   if should_optimize d then Optimize isolate2 function kind d
                   else Inr isolate2))"

text \<open>
  Modelled from the spec: the services \<open>OnInterruptTick\<close> calls are outside the sources.
  \<open>SetInterruptBudget\<close> re-seeds the budget with \<open>InterruptBudgetFor\<close>;
  \<open>CreateAndAttachFeedbackVector\<close> attaches a fresh vector and leaves the shared info
  compiled; \<open>SaturatingIncrementProfilerTicks\<close> adds one tick and stops at the largest
  \<open>int\<close>; the baseline batch compiler takes the function into its queue; a synchronous
  baseline compile leaves the function at the tier \<open>baseline_compile_result\<close> names.
\<close>

definition SetInterruptBudget :: "Isolate \<Rightarrow> nat \<Rightarrow> error + Isolate" where
  "SetInterruptBudget isolate function =
     (case InterruptBudgetFor isolate function of
        Inl e \<Rightarrow> Inl e
      | Inr budget \<Rightarrow>
          Inr (isolate\<lparr>js_functions := (js_functions isolate)
                 (function := (js_functions isolate function)\<lparr>interrupt_budget := budget\<rparr>)\<rparr>))"

definition CreateAndAttachFeedbackVector :: "Isolate \<Rightarrow> nat \<Rightarrow> Isolate" where
  "CreateAndAttachFeedbackVector isolate function =
     (let f = js_functions isolate function in
      isolate\<lparr>js_functions := (js_functions isolate)
                 (function := f\<lparr>feedback_vector :=
                    Some \<lparr>profiler_ticks = 0, invocation_count = 0\<rparr>\<rparr>),
              shared_infos := (shared_infos isolate)
                 (shared f := (shared_infos isolate (shared f))\<lparr>is_compiled := True\<rparr>)\<rparr>)"

definition set_invocation_count :: "Isolate \<Rightarrow> nat \<Rightarrow> int32 \<Rightarrow> error + Isolate" where
  "set_invocation_count isolate function n =
     (case feedback_vector (js_functions isolate function) of
        None \<Rightarrow> Inl DCheckFailed
      | Some vector \<Rightarrow>
          Inr (isolate\<lparr>js_functions := (js_functions isolate)
                 (function := (js_functions isolate function)
                    \<lparr>feedback_vector := Some (vector\<lparr>invocation_count := n\<rparr>)\<rparr>)\<rparr>))"

definition SaturatingIncrementProfilerTicks :: "Isolate \<Rightarrow> nat \<Rightarrow> error + Isolate" where
  "SaturatingIncrementProfilerTicks isolate function =
     (case feedback_vector (js_functions isolate function) of
        None \<Rightarrow> Inl DCheckFailed
      | Some vector \<Rightarrow>
          Inr (isolate\<lparr>js_functions := (js_functions isolate)
                 (function := (js_functions isolate function)
                    \<lparr>feedback_vector := Some (vector\<lparr>profiler_ticks :=
                        (if sint (profiler_ticks vector) < 2 ^ 31 - 1
                         then profiler_ticks vector + 1 else profiler_ticks vector)\<rparr>)\<rparr>)\<rparr>))"

definition CompileBaseline :: "Isolate \<Rightarrow> nat \<Rightarrow> Isolate" where
  "CompileBaseline isolate function =
     emit (CompileBaselineCall function)
       (isolate\<lparr>js_functions := (js_functions isolate)
          (function := (js_functions isolate function)
             \<lparr>GetActiveTier := baseline_compile_result isolate function\<rparr>)\<rparr>)"

text \<open>
  \<open>OnInterruptTick\<close>. The scope object \<open>OnInterruptTickScope\<close> is constructed after the two
  early returns; its destructor, which clears \<open>any_ic_changed_\<close>, runs when the function
  returns from there on.
\<close>

definition OnInterruptTickScope_exit :: "Isolate \<Rightarrow> Isolate" where
  "OnInterruptTickScope_exit isolate = isolate\<lparr>any_ic_changed := False\<rparr>"

definition OnInterruptTick :: "Isolate \<Rightarrow> nat \<Rightarrow> error + Isolate" where
  "OnInterruptTick isolate function =
     (let had_feedback_vector = has_feedback_vector (js_functions isolate function) in
      case (if had_feedback_vector then SetInterruptBudget isolate function
            else set_invocation_count (CreateAndAttachFeedbackVector isolate function)
                   function 1) of
        Inl e \<Rightarrow> Inl e
      | Inr isolate1 \<Rightarrow>
          let f1 = js_functions isolate1 function; sfi1 = shared_infos isolate1 (shared f1) in
          if \<not> has_feedback_vector f1 \<or> \<not> is_compiled sfi1 \<or> \<not> HasBytecodeArray sfi1
          then Inl DCheckFailed
          else
            let isolate2 =
                  (if CanCompileWithBaseline sfi1 \<and> \<not> ActiveTierIsBaseline f1
                   then (if FLAG_baseline_batch_compilation (flags isolate1)
                         then emit (EnqueueFunction function) isolate1
                         else CompileBaseline isolate1 function)
                   else isolate1)
            in if \<not> had_feedback_vector then Inr isolate2
               else if \<not> use_optimizer isolate2 then Inr isolate2
               else
                 (case SaturatingIncrementProfilerTicks isolate2 function of
                    Inl e \<Rightarrow> Inl e
                  | Inr isolate3 \<Rightarrow>
                      (case js_frames isolate3 of
                         [] \<Rightarrow> Inl NoJavaScriptFrame
                       | frame # _ \<Rightarrow>
                           if \<not> is_unoptimized frame then Inl DCheckFailed
                           else
                             (case GetActiveTier (js_functions isolate3 function) of
                                None \<Rightarrow> Inl BadOptionalAccess
                              | Some kind \<Rightarrow>
                                  (case MaybeOptimizeFrame isolate3 function frame kind of
                                     Inl e \<Rightarrow> Inl e
                                   | Inr isolate4 \<Rightarrow>
                                       Inr (OnInterruptTickScope_exit isolate4))))))"

subsection \<open>Sequences of controller operations\<close>

text \<open>
  The operations of the controller that a host or the interpreter invokes, and a run of
  them in order; a run stops at the first failed assertion.
\<close>

datatype ControllerOperation =
    OpOnInterruptTick nat
  | OpMaybeOptimizeFrame nat JavaScriptFrame CodeKind
  | OpShouldOptimize nat CodeKind JavaScriptFrame
  | OpAttemptOnStackReplacement JavaScriptFrame int32

fun apply_operation :: "Isolate \<Rightarrow> ControllerOperation \<Rightarrow> error + Isolate" where
  "apply_operation isolate (OpOnInterruptTick function) = OnInterruptTick isolate function"
| "apply_operation isolate (OpMaybeOptimizeFrame function frame kind) =
     MaybeOptimizeFrame isolate function frame kind"
| "apply_operation isolate (OpShouldOptimize function kind frame) =
     (case ShouldOptimize isolate function kind frame of
        Inl e \<Rightarrow> Inl e
      | Inr (isolate1, d) \<Rightarrow> Inr isolate1)"
| "apply_operation isolate (OpAttemptOnStackReplacement frame loop_nesting_levels) =
     AttemptOnStackReplacement isolate frame loop_nesting_levels"

fun run_operations :: "Isolate \<Rightarrow> ControllerOperation list \<Rightarrow> error + Isolate" where
  "run_operations isolate [] = Inr isolate"
| "run_operations isolate (operation # operations) =
     (case apply_operation isolate operation of
        Inl e \<Rightarrow> Inl e
      | Inr isolate1 \<Rightarrow> run_operations isolate1 operations)"

text \<open>The OSR loop nesting level of the bytecode array at \<open>b\<close> after a run.\<close>

definition osr_level_after :: "Isolate \<Rightarrow> ControllerOperation list \<Rightarrow> nat \<Rightarrow> error + int32" where
  "osr_level_after isolate operations b =
     (case run_operations isolate operations of
        Inl e \<Rightarrow> Inl e
      | Inr isolate1 \<Rightarrow> Inr (osr_loop_nesting_level (bytecode_arrays isolate1 b)))"

definition is_MarkForOptimizationCall :: "Event \<Rightarrow> bool" where
  "is_MarkForOptimizationCall e =
     (case e of MarkForOptimizationCall function kind mode \<Rightarrow> True | _ \<Rightarrow> False)"

text \<open>
  The requests to mark a function for optimization that have been issued so far, and the
  attributes of a function that say whether it is queued, marked or optimized.
\<close>

definition MarkForOptimization_calls :: "Isolate \<Rightarrow> Event list" where
  "MarkForOptimization_calls isolate = filter is_MarkForOptimizationCall (events isolate)"

definition same_markers :: "JSFunction \<Rightarrow> JSFunction \<Rightarrow> bool" where
  "same_markers f f' =
     (shared f' = shared f \<and>
      IsInOptimizationQueue f' = IsInOptimizationQueue f \<and>
      IsMarkedForOptimization f' = IsMarkedForOptimization f \<and>
      IsMarkedForConcurrentOptimization f' = IsMarkedForConcurrentOptimization f \<and>
      HasAvailableOptimizedCode f' = HasAvailableOptimizedCode f)"

text \<open>
  What the bookkeeping of a tick (interrupt budget, feedback vector, baseline request,
  tick count) leaves as it was.
\<close>

definition bookkeeping_only :: "Isolate \<Rightarrow> Isolate \<Rightarrow> bool" where
  "bookkeeping_only isolate isolate' =
     (flags isolate' = flags isolate \<and>
      use_optimizer isolate' = use_optimizer isolate \<and>
      kMaxLoopNestingMarker isolate' = kMaxLoopNestingMarker isolate \<and>
      bytecode_arrays isolate' = bytecode_arrays isolate \<and>
      any_ic_changed isolate' = any_ic_changed isolate \<and>
      MarkForOptimization_calls isolate' = MarkForOptimization_calls isolate \<and>
      (\<forall>s. optimization_disabled (shared_infos isolate' s)
            = optimization_disabled (shared_infos isolate s)) \<and>
      (\<forall>s. osr_code_cache_state (shared_infos isolate' s)
            = osr_code_cache_state (shared_infos isolate s)) \<and>
      (\<forall>s. bytecode_array (shared_infos isolate' s)
            = bytecode_array (shared_infos isolate s)) \<and>
      (\<forall>g. same_markers (js_functions isolate g) (js_functions isolate' g)))"

text \<open>
  The conditions under which the OSR loop nesting levels are studied: the marker fits the
  8-bit field and every level is within it; a bytecode array is, or is not, the bytecode
  of a shared info that has entries in the OSR code cache; \<open>AttemptOnStackReplacement\<close> is
  asked for a number of levels that is not negative and does not overflow the sum.
\<close>

definition osr_levels_bounded :: "Isolate \<Rightarrow> bool" where
  "osr_levels_bounded isolate =
     (0 \<le> sint (kMaxLoopNestingMarker isolate) \<and>
      sint (kMaxLoopNestingMarker isolate) \<le> 255 \<and>
      (\<forall>b. sint (osr_loop_nesting_level (bytecode_arrays isolate b))
             \<le> sint (kMaxLoopNestingMarker isolate)))"

definition cached_shared_info_owns :: "Isolate \<Rightarrow> nat \<Rightarrow> bool" where
  "cached_shared_info_owns isolate b =
     (\<exists>s. osr_code_cache_state (shared_infos isolate s) \<noteq> kNotCached \<and>
          bytecode_array (shared_infos isolate s) = b)"

fun operation_well_formed :: "ControllerOperation \<Rightarrow> bool" where
  "operation_well_formed (OpAttemptOnStackReplacement frame loop_nesting_levels) =
     (0 \<le> sint loop_nesting_levels \<and> sint loop_nesting_levels \<le> 2147483392)"
| "operation_well_formed operation = True"

text \<open>
  One step or several steps of the controller, as far as the OSR levels go; \<open>ok\<close> says
  whether the operations of the steps were well formed.
\<close>

definition osr_step :: "bool \<Rightarrow> Isolate \<Rightarrow> Isolate \<Rightarrow> bool" where
  "osr_step ok isolate isolate' =
     (kMaxLoopNestingMarker isolate' = kMaxLoopNestingMarker isolate \<and>
      (\<forall>s. osr_code_cache_state (shared_infos isolate' s)
            = osr_code_cache_state (shared_infos isolate s)) \<and>
      (\<forall>s. bytecode_array (shared_infos isolate' s)
            = bytecode_array (shared_infos isolate s)) \<and>
      (\<forall>b. sint (osr_loop_nesting_level (bytecode_arrays isolate' b))
             \<le> sint (kMaxLoopNestingMarker isolate)) \<and>
      (ok \<longrightarrow>
         (\<forall>b. \<not> cached_shared_info_owns isolate b \<longrightarrow>
                sint (osr_loop_nesting_level (bytecode_arrays isolate b))
                  \<le> sint (osr_loop_nesting_level (bytecode_arrays isolate' b)))))"

text \<open>
  The quotient of \<open>ShouldOptimize\<close> has a value: the allowance flag is not zero and the
  bytecode length is not negative.
\<close>

definition division_defined :: "Isolate \<Rightarrow> nat \<Rightarrow> bool" where
  "division_defined isolate function =
     (FLAG_bytecode_size_allowance_per_tick (flags isolate) \<noteq> 0 \<and>
      0 \<le> sint (bytecode_length
                 (GetBytecodeArray isolate (shared (js_functions isolate function)))))"

section \<open>The builtins registry\<close>

text \<open>
  \<open>Builtin\<close> is an enumeration over \<open>int32_t\<close>; \<open>ToInt\<close> and \<open>FromInt\<close> are the casts.
  The table \<open>builtin_metadata\<close> is generated from the macro \<open>BUILTIN_LIST\<close>, which is
  outside the sources, and so is the constant \<open>kFirstBuiltinContinuationId\<close> and the tag
  test \<open>HasHeapObjectTag\<close>: the three are parameters. Modelled from the spec: the builtin
  ids are the indices \<open>[first, last]\<close> of the table, with one record each, so
  \<open>kBuiltinCount\<close> is its length and \<open>IsBuiltinId\<close> tests the index range.
\<close>

type_synonym Builtin = int32
type_synonym BytecodeOffset = int32
type_synonym Address = "64 word"

datatype Kind = CPP | TFJ | TFC | TFS | TFH | BCH | ASM

datatype KindSpecificData =
    cpp_entry Address
  | parameter_count "16 word"
  | bytecode_and_scale "8 word" "8 word"

record BuiltinMetadata =
  metadata_name :: string
  metadata_kind :: Kind
  metadata_data :: KindSpecificData

record BuiltinsStatic =
  builtin_metadata :: "BuiltinMetadata list"
  kFirstBuiltinContinuationId :: int32
  HasHeapObjectTag :: "Address \<Rightarrow> bool"

definition ToInt :: "Builtin \<Rightarrow> int32" where
  "ToInt builtin = builtin"

definition kBuiltinCount :: "BuiltinsStatic \<Rightarrow> int" where
  "kBuiltinCount static = int (length (builtin_metadata static))"

definition IsBuiltinId :: "BuiltinsStatic \<Rightarrow> int32 \<Rightarrow> bool" where
  "IsBuiltinId static idx = (0 \<le> sint idx \<and> sint idx < kBuiltinCount static)"

definition FromInt :: "BuiltinsStatic \<Rightarrow> int32 \<Rightarrow> error + Builtin" where
  "FromInt static idx = (if IsBuiltinId static idx then Inr idx else Inl DCheckFailed)"

definition KindOf :: "BuiltinsStatic \<Rightarrow> Builtin \<Rightarrow> error + Kind" where
  "KindOf static builtin =
     (if IsBuiltinId static builtin
      then Inr (metadata_kind (builtin_metadata static ! nat (sint (ToInt builtin))))
      else Inl DCheckFailed)"

definition is_continuation_kind :: "Kind \<Rightarrow> bool" where
  "is_continuation_kind k = (k = TFJ \<or> k = TFC \<or> k = TFS)"

definition GetContinuationBytecodeOffset :: "BuiltinsStatic \<Rightarrow> Builtin \<Rightarrow> error + BytecodeOffset" where
  "GetContinuationBytecodeOffset static builtin =
     (case KindOf static builtin of
        Inl e \<Rightarrow> Inl e
      | Inr k \<Rightarrow>
          if is_continuation_kind k
          then Inr (kFirstBuiltinContinuationId static + ToInt builtin)
          else Inl DCheckFailed)"

definition GetBuiltinFromBytecodeOffset :: "BuiltinsStatic \<Rightarrow> BytecodeOffset \<Rightarrow> error + Builtin" where
  "GetBuiltinFromBytecodeOffset static offset_id =
     (case FromInt static (offset_id - kFirstBuiltinContinuationId static) of
        Inl e \<Rightarrow> Inl e
      | Inr builtin \<Rightarrow>
          (case KindOf static builtin of
             Inl e \<Rightarrow> Inl e
           | Inr k \<Rightarrow> if is_continuation_kind k then Inr builtin else Inl DCheckFailed))"

text \<open>
  The isolate's builtin table is an array of \<open>Address\<close> slots. Memory is a store of such
  slots; a pointer to a slot (\<open>Address*\<close>, the location of a handle) is the number of the
  slot, so that \<open>&table[i]\<close> is \<open>table + i\<close> and the difference of two pointers is the
  difference of the numbers. \<open>code_objects\<close> is the heap: the \<open>Code\<close> object a tagged
  pointer refers to.
\<close>

record Code =
  builtin_id :: Builtin

record BuiltinsIsolate =
  slots :: "int \<Rightarrow> Address"
  builtin_table :: int
  code_objects :: "Address \<Rightarrow> Code"

definition set_code :: "BuiltinsStatic \<Rightarrow> BuiltinsIsolate \<Rightarrow> Builtin \<Rightarrow> Address \<Rightarrow> error + BuiltinsIsolate" where
  "set_code static isolate builtin code_ptr =
     (if builtin \<noteq> builtin_id (code_objects isolate code_ptr) then Inl DCheckFailed
      else if \<not> HasHeapObjectTag static code_ptr then Inl DCheckFailed
      else Inr (isolate\<lparr>slots := (slots isolate)
                  (builtin_table isolate + sint (ToInt builtin) := code_ptr)\<rparr>))"

definition code :: "BuiltinsIsolate \<Rightarrow> Builtin \<Rightarrow> Code" where
  "code isolate builtin =
     code_objects isolate (slots isolate (builtin_table isolate + sint (ToInt builtin)))"

definition code_handle :: "BuiltinsIsolate \<Rightarrow> Builtin \<Rightarrow> int" where
  "code_handle isolate builtin = builtin_table isolate + sint (ToInt builtin)"

text \<open>
  \<open>IsBuiltinHandle\<close> returns the flag and the content of the out-parameter \<open>*builtin\<close>,
  which keeps its previous value \<open>builtin0\<close> when the flag is false.
\<close>

definition IsBuiltinHandle ::
  "BuiltinsStatic \<Rightarrow> BuiltinsIsolate \<Rightarrow> int \<Rightarrow> Builtin \<Rightarrow> error + (bool \<times> Builtin)" where
  "IsBuiltinHandle static isolate handle_location builtin0 =
     (let builtins_table = builtin_table isolate in
      if handle_location < builtins_table then Inr (False, builtin0)
      else
        let builtins_table_end = builtins_table + kBuiltinCount static in
        if handle_location \<ge> builtins_table_end then Inr (False, builtin0)
        else
          (case FromInt static (word_of_int (handle_location - builtins_table)) of
             Inl e \<Rightarrow> Inl e
           | Inr builtin \<Rightarrow> Inr (True, builtin)))"

text \<open>Initialization installs code objects with \<open>set_code\<close>, one call after the other.\<close>

fun install_all ::
  "BuiltinsStatic \<Rightarrow> BuiltinsIsolate \<Rightarrow> (Builtin \<times> Address) list \<Rightarrow> error + BuiltinsIsolate" where
  "install_all static isolate [] = Inr isolate"
| "install_all static isolate ((builtin, code_ptr) # installs) =
     (case set_code static isolate builtin code_ptr of
        Inl e \<Rightarrow> Inl e
      | Inr isolate1 \<Rightarrow> install_all static isolate1 installs)"

section \<open>Example configurations\<close>

text \<open>
  The scenarios of the spec, as concrete isolates with one function, one shared function
  info and one bytecode array. The bytecode has a loop that jumps back from offset 120 to
  offset 40, whose \<open>JumpLoop\<close> carries the loop depth 2 as its operand 1.
\<close>

definition example_flags :: Flags where
  "example_flags = \<lparr>FLAG_use_osr = True, FLAG_maglev = False, FLAG_always_osr = False,
     FLAG_lazy_feedback_allocation = True, FLAG_baseline_batch_compilation = False,
     FLAG_testing_d8_test_runner = False, FLAG_trace_opt = False,
     FLAG_trace_opt_verbose = False, FLAG_trace_osr = False,
     FLAG_interrupt_budget = 1000, FLAG_interrupt_budget_for_maglev = 400,
     FLAG_interrupt_budget_for_feedback_allocation = 100,
     FLAG_interrupt_budget_factor_for_feedback_allocation = 8,
     FLAG_ticks_before_optimization = 5, FLAG_bytecode_size_allowance_per_tick = 50,
     FLAG_max_bytecode_size_for_early_opt = 80\<rparr>"

definition example_bytecode :: "int32 \<Rightarrow> 8 word \<Rightarrow> BytecodeArray" where
  "example_bytecode len level = \<lparr>bytecode_length = len, osr_loop_nesting_level_field = level,
     GetJumpTargetOffset = (\<lambda>offset. if offset = 120 then 40 else 0),
     GetImmediateOperand = (\<lambda>offset i. if offset = 120 \<and> i = 1 then 2 else 0)\<rparr>"

definition example_shared :: "OSRCodeCacheStateOfSFI \<Rightarrow> SharedFunctionInfo" where
  "example_shared cache_state = \<lparr>bytecode_array = 0, is_compiled = True,
     HasBytecodeArray = True, IsUserJavaScript = True, optimization_disabled = False,
     osr_code_cache_state = cache_state, CanCompileWithBaseline = False\<rparr>"

definition example_function :: "int32 \<Rightarrow> JSFunction" where
  "example_function ticks = \<lparr>shared = 0, native_context = 0,
     feedback_vector = Some \<lparr>profiler_ticks = ticks, invocation_count = 1\<rparr>,
     interrupt_budget = 0, GetActiveTier = Some INTERPRETED_FUNCTION,
     IsInOptimizationQueue = False, IsMarkedForOptimization = False,
     IsMarkedForConcurrentOptimization = False, HasAvailableOptimizedCode = False\<rparr>"

definition example_frame :: JavaScriptFrame where
  "example_frame = \<lparr>frame_function = 0, is_unoptimized = True, frame_bytecode_array = 0,
     GetBytecodeOffset = 80\<rparr>"

definition example_isolate ::
  "Flags \<Rightarrow> JSFunction \<Rightarrow> SharedFunctionInfo \<Rightarrow> BytecodeArray \<Rightarrow> bool \<Rightarrow> Isolate" where
  "example_isolate fl f sfi bytecode ic = \<lparr>flags = fl, use_optimizer = True,
     kMaxLoopNestingMarker = 6,
     js_functions = (\<lambda>_. f),
     shared_infos = (\<lambda>_. sfi),
     bytecode_arrays = (\<lambda>_. bytecode),
     osr_optimized_code_cache = (\<lambda>_ _. [120]),
     IsHeuristicOptimizationAllowed = (\<lambda>_. True),
     baseline_compile_result = (\<lambda>_. Some BASELINE),
     js_frames = [example_frame],
     any_ic_changed = ic, events = []\<rparr>"

text \<open>Scenarios S1 and S2: bytecode length 200, ICs changed, after \<open>ticks\<close> ticks.\<close>

definition scenario_S1_S2 :: "int32 \<Rightarrow> Isolate" where
  "scenario_S1_S2 ticks =
     example_isolate example_flags (example_function ticks) (example_shared kNotCached)
       (example_bytecode 200 0) True"


text \<open>
  Scenario S6: the function is marked for optimization, has no ticks yet, and its bytecode
  has the given length.
\<close>

definition scenario_S6 :: "int32 \<Rightarrow> Isolate" where
  "scenario_S6 len =
     example_isolate example_flags ((example_function 0)\<lparr>IsMarkedForOptimization := True\<rparr>)
       (example_shared kNotCached) (example_bytecode len 0) False"

text \<open>
  A function hot enough to tier up (9 ticks, threshold 9) that is already in the
  optimization queue, or whose shared info has optimization disabled.
\<close>

definition scenario_in_queue :: Isolate where
  "scenario_in_queue =
     example_isolate example_flags ((example_function 9)\<lparr>IsInOptimizationQueue := True\<rparr>)
       (example_shared kNotCached) (example_bytecode 200 0) True"

definition scenario_disabled :: Isolate where
  "scenario_disabled =
     example_isolate example_flags (example_function 9)
       ((example_shared kNotCached)\<lparr>optimization_disabled := True\<rparr>)
       (example_bytecode 200 0) True"

text \<open>The first tick of a function: it has no feedback vector yet.\<close>

definition scenario_first_tick :: Isolate where
  "scenario_first_tick =
     example_isolate example_flags ((example_function 0)\<lparr>feedback_vector := None\<rparr>)
       (example_shared kNotCached) (example_bytecode 200 0) True"

text \<open>
  Scenario S5: the OSR code cache holds the loop at offset 120, the frame is at offset 80
  inside it. In the second isolate OSR is switched off and the function is not user
  JavaScript; in the third the Maglev flag is set.
\<close>

definition scenario_S5 :: Isolate where
  "scenario_S5 =
     example_isolate example_flags (example_function 0) (example_shared kCached)
       (example_bytecode 200 0) False"



text \<open>
  The function of scenarios S1 and S2 without ticks, with the flag
  \<open>ticks_before_optimization\<close> set to the largest \<open>int\<close>.
\<close>

definition scenario_threshold_overflow :: Isolate where
  "scenario_threshold_overflow =
     example_isolate (example_flags\<lparr>FLAG_ticks_before_optimization := 2147483647\<rparr>)
       (example_function 0) (example_shared kNotCached) (example_bytecode 200 0) True"

text \<open>
  A function marked for optimization with the given number of ticks and the given
  bytecode length, and a frame of function 0 that runs the bytecode array at \<open>b\<close>.
\<close>

definition scenario_marked :: "int32 \<Rightarrow> int32 \<Rightarrow> Isolate" where
  "scenario_marked ticks len =
     example_isolate example_flags
       ((example_function ticks)\<lparr>IsMarkedForOptimization := True\<rparr>)
       (example_shared kNotCached) (example_bytecode len 0) False"

definition frame_on_array :: "nat \<Rightarrow> JavaScriptFrame" where
  "frame_on_array b = example_frame\<lparr>frame_bytecode_array := b\<rparr>"

text \<open>
  A registry of seven builtins, one of each kind, with the continuation ids starting at 1.
  The code object for builtin \<open>i\<close> lies at the tagged address \<open>16 * i + 17\<close>; the builtin
  table starts at slot 1000.
\<close>

definition example_static :: BuiltinsStatic where
  "example_static = \<lparr>builtin_metadata =
       [\<lparr>metadata_name = ''Illegal'', metadata_kind = CPP, metadata_data = cpp_entry 4096\<rparr>,
        \<lparr>metadata_name = ''ArrayPush'', metadata_kind = TFJ, metadata_data = parameter_count 1\<rparr>,
        \<lparr>metadata_name = ''ToNumber'', metadata_kind = TFC, metadata_data = cpp_entry 0\<rparr>,
        \<lparr>metadata_name = ''StringEqual'', metadata_kind = TFS, metadata_data = cpp_entry 0\<rparr>,
        \<lparr>metadata_name = ''LoadIC'', metadata_kind = TFH, metadata_data = cpp_entry 0\<rparr>,
        \<lparr>metadata_name = ''LdarHandler'', metadata_kind = BCH,
          metadata_data = bytecode_and_scale 37 1\<rparr>,
        \<lparr>metadata_name = ''JSEntry'', metadata_kind = ASM, metadata_data = cpp_entry 0\<rparr>],
     kFirstBuiltinContinuationId = 1,
     HasHeapObjectTag = (\<lambda>address. uint address mod 4 = 1)\<rparr>"

definition example_builtins_isolate :: BuiltinsIsolate where
  "example_builtins_isolate = \<lparr>slots = (\<lambda>location. 0), builtin_table = 1000,
     code_objects = (\<lambda>address. \<lparr>builtin_id = word_of_int ((uint address - 17) div 16)\<rparr>)\<rparr>"

definition example_installs :: "(Builtin \<times> Address) list" where
  "example_installs = [(0, 17), (1, 33), (2, 49), (3, 65), (4, 81), (5, 97), (6, 113)]"

text \<open>
  Two closures of one function: they share the shared function info (which has entries in
  the OSR code cache) and its bytecode array. Closure 0 is marked for concurrent
  optimization and has two ticks; closure 1 is not marked.
\<close>

definition scenario_two_closures :: Isolate where
  "scenario_two_closures =
     (example_isolate example_flags (example_function 0) (example_shared kCached)
        (example_bytecode 200 0) False)
     \<lparr>js_functions := (\<lambda>function.
         if function = 0
         then (example_function 2)\<lparr>IsMarkedForConcurrentOptimization := True\<rparr>
         else example_function 0)\<rparr>"

definition frame_of_closure :: "nat \<Rightarrow> JavaScriptFrame" where
  "frame_of_closure function = example_frame\<lparr>frame_function := function\<rparr>"

section \<open>The tier-up decision\<close>

lemmas example_defs = example_flags_def example_bytecode_def example_shared_def
  example_function_def example_frame_def example_isolate_def

lemmas decision_defs = Maglev_def TurbofanHotAndStable_def TurbofanSmallFunction_def
  DoNotOptimize_def

lemma int32_div_nonneg:
  "b \<noteq> 0 \<Longrightarrow> 0 \<le> sint a \<Longrightarrow> int32_div a b = Inr (word_of_int (sint a sdiv sint b))"
  by (auto simp: int32_div_def)



text \<open>The loop over the cached offsets finds the first offset that brackets the current one.\<close>

lemma osr_cache_scan_find:
  "osr_cache_scan bytecode current_offset bytecode_offsets =
     find (\<lambda>jump_offset. sint current_offset \<le> sint jump_offset \<and>
             sint (GetJumpTargetOffset bytecode jump_offset) \<le> sint current_offset)
          bytecode_offsets"
  by (induction bytecode_offsets) (simp_all add: Let_def)

lemma osr_cache_hit_None:
  "osr_cache_hit isolate function frame = None \<longleftrightarrow>
   \<not> (osr_code_cache_state (shared_infos isolate (shared (js_functions isolate function)))
          \<noteq> kNotCached \<and>
        is_unoptimized frame \<and>
        (\<exists>jump_offset \<in> set (osr_optimized_code_cache isolate
                                (native_context (js_functions isolate function))
                                (shared (js_functions isolate function))).
           sint (GetBytecodeOffset frame) \<le> sint jump_offset \<and>
           sint (GetJumpTargetOffset
                   (GetBytecodeArray isolate (shared (js_functions isolate function)))
                   jump_offset) \<le> sint (GetBytecodeOffset frame)))"
  by (auto simp: osr_cache_hit_def Let_def osr_cache_scan_find find_None_iff
      osr_code_cache_state_gt_kNotCached_def)

text \<open>
  The quotient of two \<open>int\<close>s: when the divisor is not zero and the quotient is a number of
  the \<open>int\<close> range (all but \<open>INT_MIN / -1\<close>), the division returns that number.
\<close>

lemma int32_div_in_range:
  assumes divisor: "b \<noteq> 0" and upper: "sint a sdiv sint b < 2 ^ 31"
  shows "int32_div a b = Inr (word_of_int (sint a sdiv sint b))
       \<and> sint (word_of_int (sint a sdiv sint b) :: int32) = sint a sdiv sint b"
proof -
  have no_trap: "\<not> (sint a = - (2 ^ 31) \<and> sint b = - 1)"
    using upper by (auto simp: signed_divide_int_def)
  have range: "sint a sdiv sint b \<in> {- \<bar>sint a\<bar>..\<bar>sint a\<bar>}"
    by (rule sdiv_int_range)
  have "- (2 ^ 31) \<le> sint a" and "sint a < 2 ^ 31"
    using sint_ge [of a] sint_lt [of a] by simp_all
  then have lower: "- (2 ^ 31) \<le> sint a sdiv sint b"
    using range by auto
  have "sint (word_of_int (sint a sdiv sint b) :: int32) = signed_take_bit 31 (sint a sdiv sint b)"
    by (simp add: sint_sbintrunc')
  also have "\<dots> = sint a sdiv sint b"
    using lower upper by (intro signed_take_bit_int_eq_self) auto
  finally show ?thesis
    using divisor no_trap by (simp add: int32_div_def)
qed

lemma sint_add_in_range:
  assumes "- (2 ^ 31) \<le> sint (a :: int32) + sint (b :: int32)" and "sint a + sint b < 2 ^ 31"
  shows "sint (a + b) = sint a + sint b"
proof -
  have "sint (a + b) = signed_take_bit 31 (sint a + sint b)"
    by (simp add: sint_word_ariths)
  also have "\<dots> = sint a + sint b"
    using assms by (intro signed_take_bit_int_eq_self) auto
  finally show ?thesis .
qed

text \<open>
  Claim C1, amended. For a function whose active tier \<open>kind\<close> is an unoptimized JS function
  tier, with the maglev flag off and no hit in the OSR code cache (the cache state is
  \<open>kNotCached\<close>, or the frame is not unoptimized, or no cached offset brackets the current
  one), where \<open>bytecode_size_allowance_per_tick\<close> is not zero and the quotient
  \<open>length / bytecode_size_allowance_per_tick\<close> and the threshold
  \<open>ticks_before_optimization + length / bytecode_size_allowance_per_tick\<close> are numbers of
  the \<open>int\<close> range: \<open>ShouldOptimize\<close> returns \<open>TurbofanHotAndStable\<close> (code kind
  \<open>TURBOFAN\<close>, concurrent) whenever the profiler ticks have reached the threshold, and
  returns \<open>DoNotOptimize\<close> below the threshold when an IC changed or the bytecode is not
  below \<open>max_bytecode_size_for_early_opt\<close>. The threshold and the quotient are the numbers,
  the division truncating towards zero.
\<close>

theorem ShouldOptimize_hot_and_stable_in_range:
  fixes isolate :: Isolate and "function" :: nat
    and sfi :: SharedFunctionInfo and bytecode :: BytecodeArray and threshold :: int
  defines "sfi \<equiv> shared_infos isolate (shared (js_functions isolate function))"
    and "bytecode \<equiv> bytecode_arrays isolate (bytecode_array sfi)"
    and "threshold \<equiv> sint (FLAG_ticks_before_optimization (flags isolate)) +
           sint (bytecode_length bytecode)
             sdiv sint (FLAG_bytecode_size_allowance_per_tick (flags isolate))"
  assumes tier: "GetActiveTier (js_functions isolate function) = Some kind"
    and unoptimized: "CodeKindIsUnoptimizedJSFunction kind"
    and maglev: "\<not> FLAG_maglev (flags isolate)"
    and no_hit:
      "\<not> (osr_code_cache_state sfi \<noteq> kNotCached \<and> is_unoptimized frame \<and>
           (\<exists>jump_offset \<in> set (osr_optimized_code_cache isolate
                                   (native_context (js_functions isolate function))
                                   (shared (js_functions isolate function))).
              sint (GetBytecodeOffset frame) \<le> sint jump_offset \<and>
              sint (GetJumpTargetOffset bytecode jump_offset) \<le> sint (GetBytecodeOffset frame)))"
    and vector: "feedback_vector (js_functions isolate function) = Some vector"
    and allowance: "FLAG_bytecode_size_allowance_per_tick (flags isolate) \<noteq> 0"
    and size_ticks: "sint (bytecode_length bytecode)
                       sdiv sint (FLAG_bytecode_size_allowance_per_tick (flags isolate)) < 2 ^ 31"
    and lower: "- (2 ^ 31) \<le> threshold"
    and upper: "threshold < 2 ^ 31"
  shows "(threshold \<le> sint (profiler_ticks vector) \<longrightarrow>
          ShouldOptimize isolate function kind frame = Inr (isolate, TurbofanHotAndStable))
       \<and> (sint (profiler_ticks vector) < threshold \<and>
          (any_ic_changed isolate \<or>
           \<not> sint (bytecode_length bytecode)
               < sint (FLAG_max_bytecode_size_for_early_opt (flags isolate))) \<longrightarrow>
          (\<exists>isolate'. ShouldOptimize isolate function kind frame = Inr (isolate', DoNotOptimize)))
       \<and> code_kind TurbofanHotAndStable = TURBOFAN
       \<and> concurrency_mode TurbofanHotAndStable = kConcurrent"
proof -
  let ?allowance = "FLAG_bytecode_size_allowance_per_tick (flags isolate)"
  let ?tbo = "FLAG_ticks_before_optimization (flags isolate)"
  let ?len = "bytecode_length bytecode"
  have array: "GetBytecodeArray isolate (shared (js_functions isolate function)) = bytecode"
    by (simp add: GetBytecodeArray_def bytecode_def sfi_def)
  have hit: "osr_cache_hit isolate function frame = None"
    using no_hit by (simp add: osr_cache_hit_None array sfi_def)
  have division: "int32_div ?len ?allowance = Inr (word_of_int (sint ?len sdiv sint ?allowance))"
    and quotient: "sint (word_of_int (sint ?len sdiv sint ?allowance) :: int32)
                    = sint ?len sdiv sint ?allowance"
    using int32_div_in_range [OF allowance size_ticks] by simp_all
  have sum: "sint (?tbo + word_of_int (sint ?len sdiv sint ?allowance)) = threshold"
    using lower upper unfolding threshold_def by (simp add: sint_add_in_range quotient)
  show ?thesis
    using tier unoptimized maglev hit vector division sum
    by (auto simp: ShouldOptimize_def TiersUpToMaglev_def CodeKindIsUnoptimizedJSFunction_def
        ShouldOptimizeAsSmallFunction_def TurbofanHotAndStable_def Let_def array)
qed

text \<open>
  Scenarios S1 and S2: with \<open>ticks_before_optimization = 5\<close>,
  \<open>bytecode_size_allowance_per_tick = 50\<close> and bytecode length 200 the threshold is
  \<open>5 + 200 / 50 = 9\<close>: \<open>TurbofanHotAndStable\<close> at 9 ticks, \<open>DoNotOptimize\<close> at 8 ticks
  and after 1 tick.
\<close>

theorem ShouldOptimize_hot_and_stable_in_range_witness:
  "ShouldOptimize (scenario_S1_S2 9) 0 INTERPRETED_FUNCTION example_frame
     = Inr (scenario_S1_S2 9, TurbofanHotAndStable)
   \<and> (\<exists>isolate'. ShouldOptimize (scenario_S1_S2 8) 0 INTERPRETED_FUNCTION example_frame
          = Inr (isolate', DoNotOptimize))
   \<and> (\<exists>isolate'. ShouldOptimize (scenario_S1_S2 1) 0 INTERPRETED_FUNCTION example_frame
          = Inr (isolate', DoNotOptimize))
   \<and> code_kind TurbofanHotAndStable = TURBOFAN
   \<and> concurrency_mode TurbofanHotAndStable = kConcurrent"
proof -
  have at: "(9 \<le> sint ticks \<longrightarrow>
          ShouldOptimize (scenario_S1_S2 ticks) 0 INTERPRETED_FUNCTION example_frame
            = Inr (scenario_S1_S2 ticks, TurbofanHotAndStable))
       \<and> (sint ticks < 9 \<longrightarrow>
          (\<exists>isolate'. ShouldOptimize (scenario_S1_S2 ticks) 0 INTERPRETED_FUNCTION example_frame
             = Inr (isolate', DoNotOptimize)))
       \<and> code_kind TurbofanHotAndStable = TURBOFAN
       \<and> concurrency_mode TurbofanHotAndStable = kConcurrent" for ticks
    using ShouldOptimize_hot_and_stable_in_range
      [of "scenario_S1_S2 ticks" 0 INTERPRETED_FUNCTION example_frame
          "\<lparr>profiler_ticks = ticks, invocation_count = 1\<rparr>"]
    by (simp add: scenario_S1_S2_def example_defs CodeKindIsUnoptimizedJSFunction_def)
  from at [of 9] at [of 8] at [of 1] show ?thesis by simp
qed

text \<open>
  With \<open>ticks_before_optimization\<close> at the largest \<open>int\<close> the sum wraps around: a function
  without ticks, far below the threshold and with ICs changed, gets \<open>TurbofanHotAndStable\<close>.
\<close>

theorem ShouldOptimize_threshold_overflow_counterexample:
  "ShouldOptimize scenario_threshold_overflow 0 INTERPRETED_FUNCTION example_frame
     = Inr (scenario_threshold_overflow, TurbofanHotAndStable)
   \<and> GetActiveTier (js_functions scenario_threshold_overflow 0) = Some INTERPRETED_FUNCTION
   \<and> \<not> FLAG_maglev (flags scenario_threshold_overflow)
   \<and> osr_code_cache_state (shared_infos scenario_threshold_overflow 0) = kNotCached
   \<and> feedback_vector (js_functions scenario_threshold_overflow 0)
       = Some \<lparr>profiler_ticks = 0, invocation_count = 1\<rparr>
   \<and> any_ic_changed scenario_threshold_overflow
   \<and> sint (0 :: int32)
       < sint (FLAG_ticks_before_optimization (flags scenario_threshold_overflow)) +
         sint (bytecode_length (bytecode_arrays scenario_threshold_overflow 0))
           sdiv sint (FLAG_bytecode_size_allowance_per_tick (flags scenario_threshold_overflow))"
  by (simp add: scenario_threshold_overflow_def example_defs ShouldOptimize_def
      osr_cache_hit_def osr_code_cache_state_gt_kNotCached_def GetBytecodeArray_def
      TiersUpToMaglev_def int32_div_def decision_defs)

section \<open>On-stack replacement\<close>

lemmas osr_defs = AttemptOnStackReplacement_def write_osr_loop_nesting_level_def
  set_osr_loop_nesting_level_def clamp_to_marker_def osr_loop_nesting_level_def std_min_def

lemma sint_scast_int64: "sint (scast (x :: int32) :: int64) = sint x"
  by (simp add: sint_up_scast is_up)

lemma AttemptOnStackReplacement_returns:
  "is_unoptimized frame \<Longrightarrow> \<exists>isolate'. AttemptOnStackReplacement isolate frame n = Inr isolate'"
  by (simp add: AttemptOnStackReplacement_def Let_def)

text \<open>
  The allowance is computed on \<open>int\<close> before it is widened to \<open>int64_t\<close>. Up to
  48806443 ticks the product and the sum do not wrap, and the allowance is the number
  \<open>119 + ticks * 44\<close>.
\<close>

lemma osr_allowance_exact:
  assumes "0 \<le> sint ticks" and "sint ticks \<le> 48806443"
  shows "sint (119 + ticks * 44 :: int32) = 119 + sint ticks * 44"
proof -
  have "sint (ticks * 44) = signed_take_bit 31 (sint ticks * 44)"
    by (simp add: sint_word_ariths)
  also have "\<dots> = sint ticks * 44"
    using assms by (intro signed_take_bit_int_eq_self) auto
  finally have product: "sint (ticks * 44) = sint ticks * 44" .
  have "sint (119 + ticks * 44) = signed_take_bit 31 (119 + sint (ticks * 44))"
    by (simp add: sint_word_ariths)
  also have "\<dots> = 119 + sint ticks * 44"
    unfolding product using assms by (intro signed_take_bit_int_eq_self) auto
  finally show ?thesis .
qed

text \<open>
  \<open>MaybeOSR\<close> returns true if and only if the function is marked for optimization
  (concurrent or not) or has optimized code available. When it returns true, the state it
  leaves is the one \<open>AttemptOnStackReplacement\<close> (with the default one nesting level)
  leaves exactly when the bytecode length is at most the allowance the code computes, the
  wrapped \<open>int\<close> sum widened to \<open>int64_t\<close>, and the unchanged state otherwise.
\<close>

lemma MaybeOSR_size_gate:
  assumes "feedback_vector (js_functions isolate function) = Some vector"
    and "is_unoptimized frame"
  shows "\<exists>armed. AttemptOnStackReplacement isolate frame 1 = Inr armed \<and>
           MaybeOSR isolate function frame =
             (if IsMarkedForOptimization (js_functions isolate function) \<or>
                 IsMarkedForConcurrentOptimization (js_functions isolate function) \<or>
                 HasAvailableOptimizedCode (js_functions isolate function)
              then Inr (if sint (bytecode_length
                                   (GetBytecodeArray isolate (shared (js_functions isolate function))))
                             \<le> sint (119 + profiler_ticks vector * 44)
                        then armed else isolate, True)
              else Inr (isolate, False))"
proof -
  obtain armed where "AttemptOnStackReplacement isolate frame 1 = Inr armed"
    using AttemptOnStackReplacement_returns [OF assms(2)] by blast
  then show ?thesis
    using assms(1)
    by (simp add: MaybeOSR_def Let_def sint_scast_int64 kOSRBytecodeSizeAllowanceBase_def
        kOSRBytecodeSizeAllowancePerTick_def)
qed

text \<open>
  Up to 48806443 profiler ticks the allowance is the number \<open>119 + profiler_ticks * 44\<close>,
  and the size gate is the one of the specification.
\<close>

lemma MaybeOSR_size_gate_in_range:
  assumes "feedback_vector (js_functions isolate function) = Some vector"
    and "is_unoptimized frame"
    and "0 \<le> sint (profiler_ticks vector)" and "sint (profiler_ticks vector) \<le> 48806443"
  shows "\<exists>armed. AttemptOnStackReplacement isolate frame 1 = Inr armed \<and>
           MaybeOSR isolate function frame =
             (if IsMarkedForOptimization (js_functions isolate function) \<or>
                 IsMarkedForConcurrentOptimization (js_functions isolate function) \<or>
                 HasAvailableOptimizedCode (js_functions isolate function)
              then Inr (if sint (bytecode_length
                                   (GetBytecodeArray isolate (shared (js_functions isolate function))))
                             \<le> 119 + sint (profiler_ticks vector) * 44
                        then armed else isolate, True)
              else Inr (isolate, False))"
  using MaybeOSR_size_gate [OF assms(1,2)] unfolding osr_allowance_exact [OF assms(3,4)] .

text \<open>
  Scenario S6: a marked function with no ticks and bytecode length 120 is over the
  allowance 119: the state is unchanged (no back edge is armed) and \<open>MaybeOSR\<close> still
  returns true. With length 119 the nesting level goes from 0 to 1.
\<close>

lemma MaybeOSR_scenario_S6:
  "MaybeOSR (scenario_S6 120) 0 example_frame = Inr (scenario_S6 120, True)
   \<and> (\<exists>armed. MaybeOSR (scenario_S6 119) 0 example_frame = Inr (armed, True) \<and>
         osr_loop_nesting_level (bytecode_arrays armed 0) = 1)
   \<and> osr_loop_nesting_level (bytecode_arrays (scenario_S6 119) 0) = 0"
proof -
  have large: "MaybeOSR (scenario_S6 120) 0 example_frame = Inr (scenario_S6 120, True)"
    using MaybeOSR_size_gate_in_range
      [of "scenario_S6 120" 0 "\<lparr>profiler_ticks = 0, invocation_count = 1\<rparr>" example_frame]
    by (simp add: scenario_S6_def example_defs GetBytecodeArray_def)
  have small: "\<exists>armed. MaybeOSR (scenario_S6 119) 0 example_frame = Inr (armed, True) \<and>
         osr_loop_nesting_level (bytecode_arrays armed 0) = 1"
    using MaybeOSR_size_gate_in_range
      [of "scenario_S6 119" 0 "\<lparr>profiler_ticks = 0, invocation_count = 1\<rparr>" example_frame]
    by (simp add: scenario_S6_def example_defs GetBytecodeArray_def osr_defs)
  have "osr_loop_nesting_level (bytecode_arrays (scenario_S6 119) 0) = 0"
    by (simp add: scenario_S6_def example_defs osr_defs)
  with large small show ?thesis by simp
qed

text \<open>
  Claim C3. The allowance \<open>119 + profiler_ticks * 44\<close> is computed on \<open>int\<close> and only then
  widened to \<open>int64_t\<close>. For a marked function with 48806444 profiler ticks and bytecode
  length 200 the \<open>int\<close> sum wraps around to \<open>-2147483641\<close>: the length 200 is at most
  \<open>119 + 48806444 * 44 = 2147483655\<close>, and \<open>MaybeOSR\<close> returns true with the state
  unchanged, the nesting level still 0, where \<open>AttemptOnStackReplacement\<close> would have
  raised it to 1. With one tick less the sum is \<open>2147483611\<close> and the back edges are armed.
\<close>

theorem MaybeOSR_allowance_overflow:
  "MaybeOSR (scenario_marked 48806444 200) 0 example_frame
     = Inr (scenario_marked 48806444 200, True)
   \<and> IsMarkedForOptimization (js_functions (scenario_marked 48806444 200) 0)
   \<and> feedback_vector (js_functions (scenario_marked 48806444 200) 0)
       = Some \<lparr>profiler_ticks = 48806444, invocation_count = 1\<rparr>
   \<and> bytecode_length (GetBytecodeArray (scenario_marked 48806444 200) 0) = 200
   \<and> sint (200 :: int32) \<le> 119 + sint (48806444 :: int32) * 44
   \<and> sint (kOSRBytecodeSizeAllowanceBase + 48806444 * kOSRBytecodeSizeAllowancePerTick)
       = - 2147483641
   \<and> osr_loop_nesting_level (bytecode_arrays (scenario_marked 48806444 200) 0) = 0
   \<and> (\<exists>armed. AttemptOnStackReplacement (scenario_marked 48806444 200) example_frame 1
                  = Inr armed \<and>
               osr_loop_nesting_level (bytecode_arrays armed 0) = 1)
   \<and> (\<exists>armed. MaybeOSR (scenario_marked 48806443 200) 0 example_frame = Inr (armed, True) \<and>
               osr_loop_nesting_level (bytecode_arrays armed 0) = 1)"
  by (simp add: scenario_marked_def example_defs MaybeOSR_def GetBytecodeArray_def
      kOSRBytecodeSizeAllowanceBase_def kOSRBytecodeSizeAllowancePerTick_def osr_defs
      Let_def)

text \<open>
  What the tick at 48806444 profiler ticks leaves: \<open>MaybeOSR\<close> returns true, no back edge
  is armed, and the bytecode length is below the allowance \<open>2147483655\<close>.
\<close>

theorem MaybeOSR_allowance_overflow_witness:
  "\<exists>isolate'. MaybeOSR (scenario_marked 48806444 200) 0 example_frame = Inr (isolate', True) \<and>
      osr_loop_nesting_level (bytecode_arrays isolate' 0) = 0 \<and>
      sint (bytecode_length (GetBytecodeArray isolate' 0)) \<le> 2147483655"
  using MaybeOSR_allowance_overflow by simp

subsection \<open>The 8-bit field of the nesting level\<close>

lemma uint_level_bound: "uint (l :: 8 word) \<le> 255"
  using uint_bounded [of l] by simp

lemma sint_ucast_level: "sint (ucast (l :: 8 word) :: int32) = uint l"
proof -
  have "sint (ucast l :: int32) = signed_take_bit 31 (uint l)"
    by (simp add: signed_ucast_eq)
  also have "\<dots> = uint l"
  proof (rule signed_take_bit_int_eq_self)
    show "- (2 ^ 31) \<le> uint l"
      by (rule order_trans [of _ 0]) simp_all
    show "uint l < 2 ^ 31"
      using uint_level_bound [of l] by simp
  qed
  finally show ?thesis .
qed

lemma sint_level_range:
  "0 \<le> sint (osr_loop_nesting_level b) \<and> sint (osr_loop_nesting_level b) \<le> 255"
  using uint_level_bound [of "osr_loop_nesting_level_field b"]
    uint_ge_0 [of "osr_loop_nesting_level_field b"]
  by (simp add: osr_loop_nesting_level_def sint_ucast_level)

lemma level_roundtrip:
  assumes "0 \<le> sint (x :: int32)" and "sint x \<le> 255"
  shows "sint (ucast (ucast x :: 8 word) :: int32) = sint x"
proof -
  have "uint x = take_bit 32 (sint x)"
    by (simp add: uint_sint)
  also have "\<dots> = sint x"
    using assms by (intro take_bit_int_eq_self) auto
  finally have u: "uint x = sint x" .
  have "uint (ucast x :: 8 word) = take_bit 8 (uint x)"
    by (simp add: unsigned_ucast_eq)
  also have "\<dots> = uint x"
    using assms u by (intro take_bit_int_eq_self) auto
  finally show ?thesis
    using u by (simp add: sint_ucast_level)
qed

text \<open>
  What the setter stores, read back: the depth itself when it lies between 0 and the
  marker, and a value between 0 and the marker in every case.
\<close>

lemma clamp_to_marker_range:
  assumes "0 \<le> sint marker"
  shows "0 \<le> sint (clamp_to_marker marker depth)
       \<and> sint (clamp_to_marker marker depth) \<le> sint marker"
  using assms by (simp add: clamp_to_marker_def)

lemma stored_level_range:
  assumes "0 \<le> sint marker" and "sint marker \<le> 255"
  shows "0 \<le> sint (osr_loop_nesting_level (set_osr_loop_nesting_level marker b depth))
       \<and> sint (osr_loop_nesting_level (set_osr_loop_nesting_level marker b depth)) \<le> sint marker"
proof -
  note range = clamp_to_marker_range [OF assms(1), of depth]
  have "sint (ucast (ucast (clamp_to_marker marker depth) :: 8 word) :: int32)
          = sint (clamp_to_marker marker depth)"
    using range assms(2) by (intro level_roundtrip) auto
  with range show ?thesis
    by (simp add: osr_loop_nesting_level_def set_osr_loop_nesting_level_def)
qed

lemma stored_level:
  assumes "0 \<le> sint depth" and "sint depth \<le> sint marker" and "sint marker \<le> 255"
  shows "osr_loop_nesting_level (set_osr_loop_nesting_level marker b depth) = depth"
proof -
  have "clamp_to_marker marker depth = depth"
    using assms by (simp add: clamp_to_marker_def)
  moreover have "sint (ucast (ucast depth :: 8 word) :: int32) = sint depth"
    using assms by (intro level_roundtrip) auto
  ultimately show ?thesis
    by (simp add: osr_loop_nesting_level_def set_osr_loop_nesting_level_def signed_word_eqI)
qed

subsection \<open>The OSR code cache path\<close>




section \<open>The interrupt tick\<close>

lemma emit_frame [simp]:
  "flags (emit e isolate) = flags isolate"
  "use_optimizer (emit e isolate) = use_optimizer isolate"
  "kMaxLoopNestingMarker (emit e isolate) = kMaxLoopNestingMarker isolate"
  "js_functions (emit e isolate) = js_functions isolate"
  "shared_infos (emit e isolate) = shared_infos isolate"
  "bytecode_arrays (emit e isolate) = bytecode_arrays isolate"
  "osr_optimized_code_cache (emit e isolate) = osr_optimized_code_cache isolate"
  "IsHeuristicOptimizationAllowed (emit e isolate) = IsHeuristicOptimizationAllowed isolate"
  "baseline_compile_result (emit e isolate) = baseline_compile_result isolate"
  "js_frames (emit e isolate) = js_frames isolate"
  "any_ic_changed (emit e isolate) = any_ic_changed isolate"
  "events (emit e isolate) = events isolate @ [e]"
  by (simp_all add: emit_def)

lemma bookkeeping_only_refl: "bookkeeping_only isolate isolate"
  by (simp add: bookkeeping_only_def same_markers_def)

lemma bookkeeping_only_trans:
  "bookkeeping_only a b \<Longrightarrow> bookkeeping_only b c \<Longrightarrow> bookkeeping_only a c"
  by (simp add: bookkeeping_only_def same_markers_def)

lemma SetInterruptBudget_bookkeeping:
  "SetInterruptBudget isolate function = Inr isolate' \<Longrightarrow> bookkeeping_only isolate isolate'"
  by (auto simp: SetInterruptBudget_def bookkeeping_only_def same_markers_def
      MarkForOptimization_calls_def split: sum.splits if_splits)

lemma CreateAndAttachFeedbackVector_bookkeeping:
  "bookkeeping_only isolate (CreateAndAttachFeedbackVector isolate function)"
  by (auto simp: CreateAndAttachFeedbackVector_def bookkeeping_only_def same_markers_def
      MarkForOptimization_calls_def Let_def split: if_splits)

lemma set_invocation_count_bookkeeping:
  "set_invocation_count isolate function n = Inr isolate' \<Longrightarrow> bookkeeping_only isolate isolate'"
  by (auto simp: set_invocation_count_def bookkeeping_only_def same_markers_def
      MarkForOptimization_calls_def split: option.splits if_splits)

lemma SaturatingIncrementProfilerTicks_bookkeeping:
  "SaturatingIncrementProfilerTicks isolate function = Inr isolate' \<Longrightarrow>
   bookkeeping_only isolate isolate'"
  by (auto simp: SaturatingIncrementProfilerTicks_def bookkeeping_only_def same_markers_def
      MarkForOptimization_calls_def split: option.splits if_splits)

lemma CompileBaseline_bookkeeping:
  "bookkeeping_only isolate (CompileBaseline isolate function)"
  by (auto simp: CompileBaseline_def bookkeeping_only_def same_markers_def
      MarkForOptimization_calls_def is_MarkForOptimizationCall_def split: if_splits)

lemma emit_EnqueueFunction_bookkeeping:
  "bookkeeping_only isolate (emit (EnqueueFunction function) isolate)"
  by (auto simp: bookkeeping_only_def same_markers_def
      MarkForOptimization_calls_def is_MarkForOptimizationCall_def)

text \<open>
  The shape of a tick: either it returns early, after the bookkeeping, or it runs
  \<open>MaybeOptimizeFrame\<close> inside the scope and clears \<open>any_ic_changed\<close> on the way out.
\<close>

lemma OnInterruptTick_shape:
  assumes "OnInterruptTick isolate function = Inr isolate'"
  shows "(\<not> (has_feedback_vector (js_functions isolate function) \<and> use_optimizer isolate) \<and>
          bookkeeping_only isolate isolate')
       \<or> (has_feedback_vector (js_functions isolate function) \<and> use_optimizer isolate \<and>
          (\<exists>isolate3 frame kind isolate4.
              bookkeeping_only isolate isolate3 \<and>
              MaybeOptimizeFrame isolate3 function frame kind = Inr isolate4 \<and>
              isolate' = OnInterruptTickScope_exit isolate4))"
proof -
  let ?had = "has_feedback_vector (js_functions isolate function)"
  from assms obtain isolate1 where
    one: "(if ?had then SetInterruptBudget isolate function
           else set_invocation_count (CreateAndAttachFeedbackVector isolate function) function 1)
          = Inr isolate1"
    by (auto simp: OnInterruptTick_def Let_def split: sum.splits)
  have b1: "bookkeeping_only isolate isolate1"
  proof (cases ?had)
    case True
    with one show ?thesis by (simp add: SetInterruptBudget_bookkeeping)
  next
    case False
    with one have "set_invocation_count (CreateAndAttachFeedbackVector isolate function)
                     function 1 = Inr isolate1" by simp
    from CreateAndAttachFeedbackVector_bookkeeping set_invocation_count_bookkeeping [OF this]
    show ?thesis by (rule bookkeeping_only_trans)
  qed
  define isolate2 where "isolate2 =
     (if CanCompileWithBaseline (shared_infos isolate1 (shared (js_functions isolate1 function)))
         \<and> \<not> ActiveTierIsBaseline (js_functions isolate1 function)
      then (if FLAG_baseline_batch_compilation (flags isolate1)
            then emit (EnqueueFunction function) isolate1
            else CompileBaseline isolate1 function)
      else isolate1)"
  have "bookkeeping_only isolate1 isolate2"
    unfolding isolate2_def
    by (simp add: bookkeeping_only_refl CompileBaseline_bookkeeping
        emit_EnqueueFunction_bookkeeping)
  with b1 have b2: "bookkeeping_only isolate isolate2"
    by (rule bookkeeping_only_trans)
  then have opt: "use_optimizer isolate2 = use_optimizer isolate"
    by (simp add: bookkeeping_only_def)
  have eq: "OnInterruptTick isolate function =
     (if \<not> has_feedback_vector (js_functions isolate1 function) \<or>
         \<not> is_compiled (shared_infos isolate1 (shared (js_functions isolate1 function))) \<or>
         \<not> HasBytecodeArray (shared_infos isolate1 (shared (js_functions isolate1 function)))
      then Inl DCheckFailed
      else if \<not> ?had then Inr isolate2
      else if \<not> use_optimizer isolate2 then Inr isolate2
      else (case SaturatingIncrementProfilerTicks isolate2 function of
              Inl e \<Rightarrow> Inl e
            | Inr isolate3 \<Rightarrow>
                (case js_frames isolate3 of
                   [] \<Rightarrow> Inl NoJavaScriptFrame
                 | frame # _ \<Rightarrow>
                     if \<not> is_unoptimized frame then Inl DCheckFailed
                     else
                       (case GetActiveTier (js_functions isolate3 function) of
                          None \<Rightarrow> Inl BadOptionalAccess
                        | Some kind \<Rightarrow>
                            (case MaybeOptimizeFrame isolate3 function frame kind of
                               Inl e \<Rightarrow> Inl e
                             | Inr isolate4 \<Rightarrow> Inr (OnInterruptTickScope_exit isolate4))))))"
    using one unfolding isolate2_def by (simp add: OnInterruptTick_def Let_def)
  have rest: "if ?had \<and> use_optimizer isolate2
     then (\<exists>isolate3 frame kind isolate4.
            SaturatingIncrementProfilerTicks isolate2 function = Inr isolate3 \<and>
            MaybeOptimizeFrame isolate3 function frame kind = Inr isolate4 \<and>
            isolate' = OnInterruptTickScope_exit isolate4)
     else isolate' = isolate2"
    using assms unfolding eq
    by (auto split: sum.splits if_splits list.splits option.splits)
  show ?thesis
  proof (cases "?had \<and> use_optimizer isolate2")
    case False
    with rest b2 opt show ?thesis by auto
  next
    case True
    with rest obtain isolate3 frame kind isolate4 where
      s: "SaturatingIncrementProfilerTicks isolate2 function = Inr isolate3"
      and m: "MaybeOptimizeFrame isolate3 function frame kind = Inr isolate4"
      and e: "isolate' = OnInterruptTickScope_exit isolate4"
      by auto
    have "bookkeeping_only isolate isolate3"
      using b2 SaturatingIncrementProfilerTicks_bookkeeping [OF s]
      by (rule bookkeeping_only_trans)
    with True opt m e show ?thesis by blast
  qed
qed

lemma AttemptOnStackReplacement_any_ic_changed:
  "AttemptOnStackReplacement isolate frame n = Inr isolate' \<Longrightarrow>
   any_ic_changed isolate' = any_ic_changed isolate"
  by (auto simp: AttemptOnStackReplacement_def write_osr_loop_nesting_level_def Let_def
      split: if_splits)

lemma MaybeOSR_any_ic_changed:
  "MaybeOSR isolate function frame = Inr (isolate', r) \<Longrightarrow>
   any_ic_changed isolate' = any_ic_changed isolate"
  by (auto simp: MaybeOSR_def Let_def split: option.splits if_splits sum.splits
      dest!: AttemptOnStackReplacement_any_ic_changed)

lemma ShouldOptimize_any_ic_changed:
  "ShouldOptimize isolate function kind frame = Inr (isolate', d) \<Longrightarrow>
   any_ic_changed isolate' = any_ic_changed isolate"
  by (auto simp: ShouldOptimize_def write_osr_loop_nesting_level_def Let_def
      split: option.splits if_splits sum.splits)

lemma Optimize_any_ic_changed:
  "Optimize isolate function kind d = Inr isolate' \<Longrightarrow>
   any_ic_changed isolate' = any_ic_changed isolate"
  by (auto simp: Optimize_def MarkForOptimization_def Let_def split: if_splits)

lemma MaybeOptimizeFrame_any_ic_changed:
  "MaybeOptimizeFrame isolate function frame kind = Inr isolate' \<Longrightarrow>
   any_ic_changed isolate' = any_ic_changed isolate"
  by (auto simp: MaybeOptimizeFrame_def Let_def
      split: if_splits sum.splits prod.splits
      dest!: AttemptOnStackReplacement_any_ic_changed MaybeOSR_any_ic_changed
        ShouldOptimize_any_ic_changed Optimize_any_ic_changed)

text \<open>
  Claim C10. A tick that returns clears \<open>any_ic_changed\<close> exactly when it enters the
  \<open>OnInterruptTickScope\<close>, that is, when the function had a feedback vector on entry and
  the optimizer is enabled; a first tick (no feedback vector yet) and a tick with the
  optimizer disabled return early and leave \<open>any_ic_changed\<close> as it was.
\<close>

theorem OnInterruptTick_resets_any_ic_changed:
  assumes "OnInterruptTick isolate function = Inr isolate'"
  shows "any_ic_changed isolate' =
           (if has_feedback_vector (js_functions isolate function) \<and> use_optimizer isolate
            then False else any_ic_changed isolate)"
  using OnInterruptTick_shape [OF assms]
  by (auto simp: bookkeeping_only_def OnInterruptTickScope_exit_def)

text \<open>
  \<open>Optimize\<close> is the only caller of \<open>MarkForOptimization\<close>: the other steps of
  \<open>MaybeOptimizeFrame\<close> issue no such call.
\<close>

lemma only_Optimize_marks:
  "(AttemptOnStackReplacement isolate frame n = Inr isolate' \<longrightarrow>
      MarkForOptimization_calls isolate' = MarkForOptimization_calls isolate)
   \<and> (MaybeOSR isolate function frame = Inr (isolate', r) \<longrightarrow>
      MarkForOptimization_calls isolate' = MarkForOptimization_calls isolate)
   \<and> (ShouldOptimize isolate function kind frame = Inr (isolate', d) \<longrightarrow>
      MarkForOptimization_calls isolate' = MarkForOptimization_calls isolate)"
proof -
  have osr: "MarkForOptimization_calls b = MarkForOptimization_calls a"
    if "AttemptOnStackReplacement a frame m = Inr b" for a b m
    using that
    by (auto simp: AttemptOnStackReplacement_def write_osr_loop_nesting_level_def Let_def
        MarkForOptimization_calls_def is_MarkForOptimizationCall_def split: if_splits)
  have "MarkForOptimization_calls isolate' = MarkForOptimization_calls isolate"
    if "MaybeOSR isolate function frame = Inr (isolate', r)"
    using that
    by (auto simp: MaybeOSR_def Let_def split: option.splits if_splits sum.splits dest!: osr)
  moreover have "MarkForOptimization_calls isolate' = MarkForOptimization_calls isolate"
    if "ShouldOptimize isolate function kind frame = Inr (isolate', d)"
    using that
    by (auto simp: ShouldOptimize_def write_osr_loop_nesting_level_def Let_def
        MarkForOptimization_calls_def is_MarkForOptimizationCall_def
        split: option.splits if_splits sum.splits)
  ultimately show ?thesis using osr by blast
qed

lemma MaybeOptimizeFrame_in_queue:
  assumes "IsInOptimizationQueue (js_functions isolate function)"
  shows "MaybeOptimizeFrame isolate function frame kind =
           Inr (if FLAG_trace_opt_verbose (flags isolate)
                then emit (TraceInOptimizationQueue function) isolate else isolate)"
  using assms by (simp add: MaybeOptimizeFrame_def Let_def)

text \<open>
  Claim C5. For a function that is in the optimization queue, \<open>MaybeOptimizeFrame\<close>
  returns after the optional trace line, with nothing else changed, and so never reaches
  \<open>Optimize\<close>; a tick on the function issues no \<open>MarkForOptimization\<close> call and leaves the
  function in the queue.
\<close>

theorem no_double_enqueue:
  assumes "IsInOptimizationQueue (js_functions isolate function)"
  shows "MaybeOptimizeFrame isolate function frame kind =
           Inr (if FLAG_trace_opt_verbose (flags isolate)
                then emit (TraceInOptimizationQueue function) isolate else isolate)
       \<and> (\<forall>isolate'. OnInterruptTick isolate function = Inr isolate' \<longrightarrow>
             MarkForOptimization_calls isolate' = MarkForOptimization_calls isolate \<and>
             IsInOptimizationQueue (js_functions isolate' function))"
proof (intro conjI allI impI)
  show "MaybeOptimizeFrame isolate function frame kind =
           Inr (if FLAG_trace_opt_verbose (flags isolate)
                then emit (TraceInOptimizationQueue function) isolate else isolate)"
    using assms by (rule MaybeOptimizeFrame_in_queue)
next
  fix isolate'
  assume tick: "OnInterruptTick isolate function = Inr isolate'"
  have "MarkForOptimization_calls isolate' = MarkForOptimization_calls isolate \<and>
        IsInOptimizationQueue (js_functions isolate' function)"
    using OnInterruptTick_shape [OF tick]
  proof (elim disjE conjE exE)
    assume "bookkeeping_only isolate isolate'"
    with assms show ?thesis
      by (auto simp: bookkeeping_only_def same_markers_def)
  next
    fix isolate3 frame kind isolate4
    assume b: "bookkeeping_only isolate isolate3"
      and m: "MaybeOptimizeFrame isolate3 function frame kind = Inr isolate4"
      and e: "isolate' = OnInterruptTickScope_exit isolate4"
    from b assms have q: "IsInOptimizationQueue (js_functions isolate3 function)"
      by (auto simp: bookkeeping_only_def same_markers_def)
    from m MaybeOptimizeFrame_in_queue [OF q, of frame kind]
    have "isolate4 = (if FLAG_trace_opt_verbose (flags isolate3)
                      then emit (TraceInOptimizationQueue function) isolate3 else isolate3)"
      by simp
    with b q e show ?thesis
      by (auto simp: bookkeeping_only_def same_markers_def OnInterruptTickScope_exit_def
          MarkForOptimization_calls_def is_MarkForOptimizationCall_def)
  qed
  then show "MarkForOptimization_calls isolate' = MarkForOptimization_calls isolate"
    and "IsInOptimizationQueue (js_functions isolate' function)" by simp_all
qed

lemma MaybeOptimizeFrame_disabled:
  assumes "optimization_disabled (shared_infos isolate (shared (js_functions isolate function)))"
  shows "MaybeOptimizeFrame isolate function frame kind = Inr isolate
       \<or> MaybeOptimizeFrame isolate function frame kind
            = Inr (emit (TraceInOptimizationQueue function) isolate)
       \<or> MaybeOptimizeFrame isolate function frame kind
            = Inr (emit (TraceHeuristicOptimizationDisallowed function) isolate)"
  using assms by (simp add: MaybeOptimizeFrame_def Let_def)

lemma MaybeOptimizeFrame_disabled_frame:
  assumes "optimization_disabled (shared_infos isolate (shared (js_functions isolate function)))"
  shows "\<exists>isolate'. MaybeOptimizeFrame isolate function frame kind = Inr isolate' \<and>
            bytecode_arrays isolate' = bytecode_arrays isolate \<and>
            js_functions isolate' = js_functions isolate \<and>
            any_ic_changed isolate' = any_ic_changed isolate \<and>
            MarkForOptimization_calls isolate' = MarkForOptimization_calls isolate"
  using MaybeOptimizeFrame_disabled [OF assms, of frame kind]
  by (auto simp: MarkForOptimization_calls_def is_MarkForOptimizationCall_def)

text \<open>
  Claim C6. For a function whose shared info has \<open>optimization_disabled\<close> set,
  \<open>MaybeOptimizeFrame\<close> returns without arming OSR and without marking the function;
  \<open>AttemptOnStackReplacement\<close> on a frame of the function returns the state as it was;
  and a tick leaves every bytecode array (so every OSR loop nesting level), the function's
  markers and the list of \<open>MarkForOptimization\<close> calls unchanged.
\<close>

theorem optimization_disabled_honored:
  assumes "optimization_disabled (shared_infos isolate (shared (js_functions isolate function)))"
  shows "(\<exists>isolate'. MaybeOptimizeFrame isolate function frame kind = Inr isolate' \<and>
            bytecode_arrays isolate' = bytecode_arrays isolate \<and>
            js_functions isolate' = js_functions isolate \<and>
            MarkForOptimization_calls isolate' = MarkForOptimization_calls isolate)
       \<and> (frame_function frame = function \<longrightarrow>
            AttemptOnStackReplacement isolate frame loop_nesting_levels = Inr isolate)
       \<and> (\<forall>isolate'. OnInterruptTick isolate function = Inr isolate' \<longrightarrow>
            bytecode_arrays isolate' = bytecode_arrays isolate \<and>
            same_markers (js_functions isolate function) (js_functions isolate' function) \<and>
            MarkForOptimization_calls isolate' = MarkForOptimization_calls isolate)"
proof (intro conjI allI impI)
  show "\<exists>isolate'. MaybeOptimizeFrame isolate function frame kind = Inr isolate' \<and>
            bytecode_arrays isolate' = bytecode_arrays isolate \<and>
            js_functions isolate' = js_functions isolate \<and>
            MarkForOptimization_calls isolate' = MarkForOptimization_calls isolate"
    using MaybeOptimizeFrame_disabled_frame [OF assms, of frame kind] by blast
next
  assume "frame_function frame = function"
  with assms show "AttemptOnStackReplacement isolate frame loop_nesting_levels = Inr isolate"
    by (simp add: AttemptOnStackReplacement_def Let_def)
next
  fix isolate'
  assume tick: "OnInterruptTick isolate function = Inr isolate'"
  have "bytecode_arrays isolate' = bytecode_arrays isolate \<and>
        same_markers (js_functions isolate function) (js_functions isolate' function) \<and>
        MarkForOptimization_calls isolate' = MarkForOptimization_calls isolate"
    using OnInterruptTick_shape [OF tick]
  proof (elim disjE conjE exE)
    assume "bookkeeping_only isolate isolate'"
    then show ?thesis by (simp add: bookkeeping_only_def)
  next
    fix isolate3 frame kind isolate4
    assume b: "bookkeeping_only isolate isolate3"
      and m: "MaybeOptimizeFrame isolate3 function frame kind = Inr isolate4"
      and e: "isolate' = OnInterruptTickScope_exit isolate4"
    from b assms
    have "optimization_disabled (shared_infos isolate3 (shared (js_functions isolate3 function)))"
      by (auto simp: bookkeeping_only_def same_markers_def)
    from MaybeOptimizeFrame_disabled_frame [OF this, of frame kind] m
    have "bytecode_arrays isolate4 = bytecode_arrays isolate3 \<and>
          js_functions isolate4 = js_functions isolate3 \<and>
          MarkForOptimization_calls isolate4 = MarkForOptimization_calls isolate3"
      by auto
    with b e show ?thesis
      by (simp add: bookkeeping_only_def OnInterruptTickScope_exit_def
          MarkForOptimization_calls_def)
  qed
  then show "bytecode_arrays isolate' = bytecode_arrays isolate"
    and "same_markers (js_functions isolate function) (js_functions isolate' function)"
    and "MarkForOptimization_calls isolate' = MarkForOptimization_calls isolate"
    by simp_all
qed

subsection \<open>When the calls return\<close>

text \<open>
  No assertion fails and no division traps in the per-frame decision when the function has
  a feedback vector, the kind passed in is its active tier, and the quotient has a value;
  nor in a tick, when moreover the shared info is compiled and has bytecode and the
  topmost JavaScript frame is unoptimized.
\<close>

lemma ShouldOptimize_returns:
  assumes "GetActiveTier (js_functions isolate function) = Some kind"
    and "feedback_vector (js_functions isolate function) \<noteq> None"
    and "division_defined isolate function"
  shows "\<exists>isolate' d. ShouldOptimize isolate function kind frame = Inr (isolate', d) \<and>
           (should_optimize d \<longrightarrow> (\<exists>isolate''. Optimize isolate' function kind d = Inr isolate''))"
  using assms
  by (auto simp: ShouldOptimize_def Optimize_def Let_def division_defined_def
      int32_div_nonneg split: option.splits)

lemma AttemptOnStackReplacement_keeps:
  assumes "AttemptOnStackReplacement isolate frame n = Inr isolate'"
  shows "js_functions isolate' = js_functions isolate \<and> flags isolate' = flags isolate \<and>
         shared_infos isolate' = shared_infos isolate \<and>
         (\<forall>b. bytecode_length (bytecode_arrays isolate' b)
                = bytecode_length (bytecode_arrays isolate b))"
  using assms
  by (auto simp: AttemptOnStackReplacement_def write_osr_loop_nesting_level_def
      set_osr_loop_nesting_level_def Let_def split: if_splits)

lemma MaybeOSR_keeps:
  assumes "MaybeOSR isolate function frame = Inr (isolate', r)"
  shows "js_functions isolate' = js_functions isolate \<and> flags isolate' = flags isolate \<and>
         shared_infos isolate' = shared_infos isolate \<and>
         (\<forall>b. bytecode_length (bytecode_arrays isolate' b)
                = bytecode_length (bytecode_arrays isolate b))"
  using assms
  by (auto simp: MaybeOSR_def Let_def split: option.splits if_splits sum.splits
      dest!: AttemptOnStackReplacement_keeps)

lemma MaybeOSR_returns:
  assumes "feedback_vector (js_functions isolate function) \<noteq> None" and "is_unoptimized frame"
  shows "\<exists>isolate' r. MaybeOSR isolate function frame = Inr (isolate', r)"
  using assms AttemptOnStackReplacement_returns [OF assms(2), of isolate 1]
  by (auto simp: MaybeOSR_def Let_def split: option.splits)

lemma MaybeOptimizeFrame_returns:
  assumes tier: "GetActiveTier (js_functions isolate function) = Some kind"
    and vector: "feedback_vector (js_functions isolate function) \<noteq> None"
    and division: "division_defined isolate function"
  shows "\<exists>isolate'. MaybeOptimizeFrame isolate function frame kind = Inr isolate'"
proof -
  define osr_part where "osr_part =
     (if is_unoptimized frame
      then (if FLAG_always_osr (flags isolate)
            then (case AttemptOnStackReplacement isolate frame (kMaxLoopNestingMarker isolate) of
                    Inl e \<Rightarrow> Inl e
                  | Inr isolate1 \<Rightarrow> Inr (isolate1, False))
            else MaybeOSR isolate function frame)
      else Inr (isolate, False))"
  have "\<exists>isolate1 r. osr_part = Inr (isolate1, r) \<and>
          js_functions isolate1 = js_functions isolate \<and> flags isolate1 = flags isolate \<and>
          shared_infos isolate1 = shared_infos isolate \<and>
          (\<forall>b. bytecode_length (bytecode_arrays isolate1 b)
                 = bytecode_length (bytecode_arrays isolate b))"
  proof (cases "is_unoptimized frame")
    case False
    then show ?thesis by (auto simp: osr_part_def)
  next
    case True
    show ?thesis
    proof (cases "FLAG_always_osr (flags isolate)")
      case True
      from AttemptOnStackReplacement_returns [OF \<open>is_unoptimized frame\<close>,
          of isolate "kMaxLoopNestingMarker isolate"]
      obtain isolate1 where
        a: "AttemptOnStackReplacement isolate frame (kMaxLoopNestingMarker isolate) = Inr isolate1"
        by blast
      with True \<open>is_unoptimized frame\<close> AttemptOnStackReplacement_keeps [OF a]
      show ?thesis by (auto simp: osr_part_def)
    next
      case False
      from MaybeOSR_returns [OF vector \<open>is_unoptimized frame\<close>]
      obtain isolate1 r where m: "MaybeOSR isolate function frame = Inr (isolate1, r)"
        by blast
      with False \<open>is_unoptimized frame\<close> MaybeOSR_keeps [OF m]
      show ?thesis by (auto simp: osr_part_def)
    qed
  qed
  then obtain isolate1 r where part: "osr_part = Inr (isolate1, r)"
    and keeps: "js_functions isolate1 = js_functions isolate" "flags isolate1 = flags isolate"
      "shared_infos isolate1 = shared_infos isolate"
      "\<forall>b. bytecode_length (bytecode_arrays isolate1 b)
                 = bytecode_length (bytecode_arrays isolate b)"
    by blast
  have "division_defined isolate1 function"
    using division keeps by (simp add: division_defined_def GetBytecodeArray_def)
  from ShouldOptimize_returns [OF _ _ this, of kind frame] tier vector keeps
  obtain isolate2 d where
    so: "ShouldOptimize isolate1 function kind frame = Inr (isolate2, d)"
    and opt: "should_optimize d \<longrightarrow> (\<exists>isolate''. Optimize isolate2 function kind d = Inr isolate'')"
    by auto
  have "\<exists>isolate'. (case osr_part of
        Inl e \<Rightarrow> Inl e
      | Inr (isolate1, osr_only) \<Rightarrow>
          if osr_only then Inr isolate1
          else (case ShouldOptimize isolate1 function kind frame of
                  Inl e \<Rightarrow> Inl e
                | Inr (isolate2, d) \<Rightarrow>
                    if should_optimize d then Optimize isolate2 function kind d
                    else Inr isolate2)) = Inr isolate'"
    using part so opt by auto
  then show ?thesis
    unfolding osr_part_def by (auto simp: MaybeOptimizeFrame_def Let_def)
qed

lemma scope_returns:
  assumes "GetActiveTier (js_functions isolate3 function) = Some kind"
    and "feedback_vector (js_functions isolate3 function) \<noteq> None"
    and "division_defined isolate3 function"
  shows "\<exists>isolate'. (case MaybeOptimizeFrame isolate3 function frame kind of
                        Inl e \<Rightarrow> Inl e
                      | Inr isolate4 \<Rightarrow> Inr (OnInterruptTickScope_exit isolate4)) = Inr isolate'"
  using MaybeOptimizeFrame_returns [OF assms, of frame] by auto

lemma OnInterruptTick_returns:
  assumes compiled: "has_feedback_vector (js_functions isolate function) \<longrightarrow>
             is_compiled (shared_infos isolate (shared (js_functions isolate function)))"
    and bytecode: "HasBytecodeArray (shared_infos isolate (shared (js_functions isolate function)))"
    and frames: "js_frames isolate = frame # frames" "is_unoptimized frame"
    and tier: "GetActiveTier (js_functions isolate function) = Some kind"
      "baseline_compile_result isolate function = Some kind'"
    and division: "division_defined isolate function"
  shows "\<exists>isolate'. OnInterruptTick isolate function = Inr isolate'"
proof (cases "has_feedback_vector (js_functions isolate function)")
  case False
  with bytecode show ?thesis
    by (auto simp: OnInterruptTick_def Let_def has_feedback_vector_def
        CreateAndAttachFeedbackVector_def set_invocation_count_def)
next
  case True
  then obtain vector where vector: "feedback_vector (js_functions isolate function) = Some vector"
    by (auto simp: has_feedback_vector_def)
  show ?thesis
  proof (cases "use_optimizer isolate")
    case False
    with True compiled bytecode show ?thesis
      by (auto simp: OnInterruptTick_def Let_def has_feedback_vector_def
          SetInterruptBudget_def InterruptBudgetFor_def CompileBaseline_def emit_def)
  next
    case optimizer: True
    have "\<exists>isolate'. (case MaybeOptimizeFrame isolate3 function frame k of
                        Inl e \<Rightarrow> Inl e
                      | Inr isolate4 \<Rightarrow> Inr (OnInterruptTickScope_exit isolate4)) = Inr isolate'"
      if "GetActiveTier (js_functions isolate3 function) = Some k"
        and "feedback_vector (js_functions isolate3 function) \<noteq> None"
        and "flags isolate3 = flags isolate"
        and "bytecode_arrays isolate3 = bytecode_arrays isolate"
        and "shared_infos isolate3 = shared_infos isolate"
        and "shared (js_functions isolate3 function) = shared (js_functions isolate function)"
      for isolate3 k
    proof (rule scope_returns [OF that(1,2)])
      show "division_defined isolate3 function"
        using division that by (simp add: division_defined_def GetBytecodeArray_def)
    qed
    note scope = this
    from True optimizer compiled bytecode vector frames tier show ?thesis
      by (auto simp: OnInterruptTick_def Let_def has_feedback_vector_def
          SetInterruptBudget_def InterruptBudgetFor_def CompileBaseline_def emit_def
          SaturatingIncrementProfilerTicks_def intro!: scope)
  qed
qed

subsection \<open>Ticks on the example functions\<close>

lemmas tick_defs = OnInterruptTick_def SetInterruptBudget_def InterruptBudgetFor_def
  CreateAndAttachFeedbackVector_def set_invocation_count_def
  SaturatingIncrementProfilerTicks_def CompileBaseline_def OnInterruptTickScope_exit_def
  MaybeOptimizeFrame_def MaybeOSR_def ShouldOptimize_def Optimize_def MarkForOptimization_def
  osr_cache_hit_def osr_code_cache_state_gt_kNotCached_def GetBytecodeArray_def
  TiersUpToMaglev_def TiersUpToMaglevOpt_def ShouldOptimizeAsSmallFunction_def
  has_feedback_vector_def ActiveTierIsBaseline_def should_optimize_def int32_div_def
  kOSRBytecodeSizeAllowanceBase_def kOSRBytecodeSizeAllowancePerTick_def emit_def Let_def

text \<open>
  A hot function that is not queued: the tick that brings it to 9 ticks marks it for
  concurrent top-tier optimization.
\<close>

lemma hot_function_is_marked:
  "\<exists>isolate'. OnInterruptTick (scenario_S1_S2 8) 0 = Inr isolate' \<and>
     MarkForOptimization_calls isolate' = [MarkForOptimizationCall 0 TURBOFAN kConcurrent]"
  by (simp add: scenario_S1_S2_def example_defs tick_defs decision_defs
      MarkForOptimization_calls_def is_MarkForOptimizationCall_def)

text \<open>The queued function of the example is left alone by a tick, hot as it is.\<close>

theorem no_double_enqueue_witness:
  "MaybeOptimizeFrame scenario_in_queue 0 example_frame INTERPRETED_FUNCTION
     = Inr scenario_in_queue
   \<and> (\<exists>isolate'. OnInterruptTick scenario_in_queue 0 = Inr isolate' \<and>
         MarkForOptimization_calls isolate' = [] \<and>
         IsInOptimizationQueue (js_functions isolate' 0))"
proof -
  have queued: "IsInOptimizationQueue (js_functions scenario_in_queue 0)"
    by (simp add: scenario_in_queue_def example_defs)
  note claim = no_double_enqueue [OF queued, of example_frame INTERPRETED_FUNCTION]
  obtain isolate' where tick: "OnInterruptTick scenario_in_queue 0 = Inr isolate'"
    by (auto simp: scenario_in_queue_def example_defs tick_defs decision_defs)
  have "MarkForOptimization_calls scenario_in_queue = []"
    by (simp add: scenario_in_queue_def example_defs MarkForOptimization_calls_def)
  with claim tick have "MarkForOptimization_calls isolate' = [] \<and>
         IsInOptimizationQueue (js_functions isolate' 0)" by simp
  moreover have "MaybeOptimizeFrame scenario_in_queue 0 example_frame INTERPRETED_FUNCTION
     = Inr scenario_in_queue"
    using claim by (simp add: scenario_in_queue_def example_defs)
  ultimately show ?thesis using tick by blast
qed

text \<open>The same function with optimization disabled: nothing is armed and nothing is marked.\<close>

theorem optimization_disabled_honored_witness:
  "(\<exists>isolate'. MaybeOptimizeFrame scenario_disabled 0 example_frame INTERPRETED_FUNCTION
        = Inr isolate' \<and>
      bytecode_arrays isolate' = bytecode_arrays scenario_disabled \<and>
      js_functions isolate' = js_functions scenario_disabled \<and>
      MarkForOptimization_calls isolate' = [])
   \<and> AttemptOnStackReplacement scenario_disabled example_frame 1 = Inr scenario_disabled
   \<and> (\<exists>isolate'. OnInterruptTick scenario_disabled 0 = Inr isolate' \<and>
         bytecode_arrays isolate' = bytecode_arrays scenario_disabled \<and>
         same_markers (js_functions scenario_disabled 0) (js_functions isolate' 0) \<and>
         MarkForOptimization_calls isolate' = [])"
proof -
  have disabled: "optimization_disabled
      (shared_infos scenario_disabled (shared (js_functions scenario_disabled 0)))"
    by (simp add: scenario_disabled_def example_defs)
  note claim = optimization_disabled_honored
    [OF disabled, of example_frame INTERPRETED_FUNCTION 1]
  obtain isolate' where tick: "OnInterruptTick scenario_disabled 0 = Inr isolate'"
    by (auto simp: scenario_disabled_def example_defs tick_defs decision_defs)
  have none: "MarkForOptimization_calls scenario_disabled = []"
    by (simp add: scenario_disabled_def example_defs MarkForOptimization_calls_def)
  have frame: "frame_function example_frame = 0"
    by (simp add: example_defs)
  from claim tick none frame show ?thesis by auto
qed

text \<open>
  A tick inside the scope clears the flag; a first tick and a tick with the optimizer
  disabled leave it set.
\<close>

theorem OnInterruptTick_resets_any_ic_changed_witness:
  "(\<exists>isolate'. OnInterruptTick (scenario_S1_S2 1) 0 = Inr isolate' \<and>
       any_ic_changed (scenario_S1_S2 1) \<and> \<not> any_ic_changed isolate')
   \<and> (\<exists>isolate'. OnInterruptTick scenario_first_tick 0 = Inr isolate' \<and>
         any_ic_changed isolate')
   \<and> (\<exists>isolate'. OnInterruptTick ((scenario_S1_S2 1)\<lparr>use_optimizer := False\<rparr>) 0
                     = Inr isolate' \<and> any_ic_changed isolate')"
proof -
  obtain a where a: "OnInterruptTick (scenario_S1_S2 1) 0 = Inr a"
    by (auto simp: scenario_S1_S2_def example_defs tick_defs decision_defs)
  obtain b where b: "OnInterruptTick scenario_first_tick 0 = Inr b"
    by (auto simp: scenario_first_tick_def example_defs tick_defs decision_defs)
  obtain c where c: "OnInterruptTick ((scenario_S1_S2 1)\<lparr>use_optimizer := False\<rparr>) 0 = Inr c"
    by (auto simp: scenario_S1_S2_def example_defs tick_defs decision_defs)
  have "any_ic_changed (scenario_S1_S2 1) \<and> \<not> any_ic_changed a"
    using OnInterruptTick_resets_any_ic_changed [OF a]
    by (simp add: scenario_S1_S2_def example_defs has_feedback_vector_def)
  moreover have "any_ic_changed b"
    using OnInterruptTick_resets_any_ic_changed [OF b]
    by (simp add: scenario_first_tick_def example_defs has_feedback_vector_def)
  moreover have "any_ic_changed c"
    using OnInterruptTick_resets_any_ic_changed [OF c]
    by (simp add: scenario_S1_S2_def example_defs has_feedback_vector_def)
  ultimately show ?thesis using a b c by blast
qed

section \<open>The OSR loop nesting level over time\<close>

lemma sint_add_small:
  assumes "0 \<le> sint (a :: int32)" "sint a \<le> 255" "0 \<le> sint (n :: int32)" "sint n \<le> 2147483392"
  shows "sint (a + n) = sint a + sint n"
proof -
  have "sint (a + n) = signed_take_bit 31 (sint a + sint n)"
    by (simp add: sint_word_ariths)
  also have "\<dots> = sint a + sint n"
    using assms by (intro signed_take_bit_int_eq_self) auto
  finally show ?thesis .
qed

lemma sint_std_min: "sint (std_min a b) = min (sint a) (sint b)"
  by (simp add: std_min_def min_def)

text \<open>Arming: the new level is between the old level and the marker.\<close>

lemma armed_level:
  fixes n kmax :: int32
  assumes "sint (osr_loop_nesting_level b) \<le> sint kmax" and "sint kmax \<le> 255"
    and "0 \<le> sint n" and "sint n \<le> 2147483392"
  shows "sint (osr_loop_nesting_level b)
           \<le> sint (osr_loop_nesting_level
                     (set_osr_loop_nesting_level kmax b'
                        (std_min (osr_loop_nesting_level b + n) kmax)))"
proof -
  let ?level = "osr_loop_nesting_level b"
  have range: "0 \<le> sint ?level" "sint ?level \<le> 255"
    using sint_level_range [of b] by simp_all
  have sum: "sint (?level + n) = sint ?level + sint n"
    using range assms by (intro sint_add_small) auto
  have m: "sint (std_min (?level + n) kmax) = min (sint ?level + sint n) (sint kmax)"
    by (simp add: sint_std_min sum)
  have "osr_loop_nesting_level (set_osr_loop_nesting_level kmax b' (std_min (?level + n) kmax))
          = std_min (?level + n) kmax"
    using range assms m by (intro stored_level) auto
  with m range assms show ?thesis by simp
qed

lemma osr_step_refl: "osr_levels_bounded isolate \<Longrightarrow> osr_step ok isolate isolate"
  by (simp add: osr_step_def osr_levels_bounded_def)

lemma osr_step_same_arrays:
  assumes "osr_levels_bounded a"
    and "kMaxLoopNestingMarker b = kMaxLoopNestingMarker a"
    and "bytecode_arrays b = bytecode_arrays a"
    and "\<forall>s. osr_code_cache_state (shared_infos b s) = osr_code_cache_state (shared_infos a s)"
    and "\<forall>s. bytecode_array (shared_infos b s) = bytecode_array (shared_infos a s)"
  shows "osr_step ok a b"
  using assms by (simp add: osr_step_def osr_levels_bounded_def)

lemma osr_step_owns:
  "osr_step ok a b \<Longrightarrow> cached_shared_info_owns b x = cached_shared_info_owns a x"
  by (simp add: osr_step_def cached_shared_info_owns_def)

lemma osr_step_trans:
  assumes "osr_step ok1 a b" and "osr_step ok2 b c"
  shows "osr_step (ok1 \<and> ok2) a c"
proof -
  have owns: "\<And>x. cached_shared_info_owns b x = cached_shared_info_owns a x"
    using assms(1) by (rule osr_step_owns)
  have mono: "sint (osr_loop_nesting_level (bytecode_arrays a x))
                \<le> sint (osr_loop_nesting_level (bytecode_arrays c x))"
    if "ok1" "ok2" "\<not> cached_shared_info_owns a x" for x
  proof -
    have "sint (osr_loop_nesting_level (bytecode_arrays a x))
            \<le> sint (osr_loop_nesting_level (bytecode_arrays b x))"
      using assms(1) that by (simp add: osr_step_def)
    moreover have "sint (osr_loop_nesting_level (bytecode_arrays b x))
            \<le> sint (osr_loop_nesting_level (bytecode_arrays c x))"
      using assms(2) that owns by (simp add: osr_step_def)
    ultimately show ?thesis by simp
  qed
  have rest: "kMaxLoopNestingMarker c = kMaxLoopNestingMarker a \<and>
      (\<forall>s. osr_code_cache_state (shared_infos c s) = osr_code_cache_state (shared_infos a s)) \<and>
      (\<forall>s. bytecode_array (shared_infos c s) = bytecode_array (shared_infos a s)) \<and>
      (\<forall>x. sint (osr_loop_nesting_level (bytecode_arrays c x))
             \<le> sint (kMaxLoopNestingMarker a))"
    using assms by (simp add: osr_step_def)
  with mono show ?thesis by (simp add: osr_step_def)
qed

lemma osr_step_trans_True:
  "osr_step True a b \<Longrightarrow> osr_step True b c \<Longrightarrow> osr_step True a c"
  using osr_step_trans [of True a b True c] by simp

lemma osr_step_bounded:
  "osr_levels_bounded a \<Longrightarrow> osr_step ok a b \<Longrightarrow> osr_levels_bounded b"
  by (simp add: osr_step_def osr_levels_bounded_def)

lemma bookkeeping_only_osr_step:
  "osr_levels_bounded a \<Longrightarrow> bookkeeping_only a b \<Longrightarrow> osr_step ok a b"
  by (rule osr_step_same_arrays) (simp_all add: bookkeeping_only_def)

lemma emit_osr_step: "osr_levels_bounded a \<Longrightarrow> osr_step ok a (emit e a)"
  by (rule osr_step_same_arrays) (simp_all add: emit_def)

text \<open>
  A write of the level is a step: the stored level is within the marker, and the level has
  not decreased when the array is owned by no cached shared info and the stored level is
  not below the old one.
\<close>

lemma write_osr_step:
  assumes bounded: "osr_levels_bounded isolate"
    and mono: "ok \<Longrightarrow> \<not> cached_shared_info_owns isolate b \<Longrightarrow>
         sint (osr_loop_nesting_level (bytecode_arrays isolate b))
           \<le> sint (osr_loop_nesting_level
                     (set_osr_loop_nesting_level (kMaxLoopNestingMarker isolate)
                        (bytecode_arrays isolate b) depth))"
  shows "osr_step ok isolate (write_osr_loop_nesting_level b depth isolate)"
proof -
  have stored: "sint (osr_loop_nesting_level
                     (set_osr_loop_nesting_level (kMaxLoopNestingMarker isolate)
                        (bytecode_arrays isolate b) depth))
                  \<le> sint (kMaxLoopNestingMarker isolate)"
    using bounded stored_level_range [of "kMaxLoopNestingMarker isolate"]
    by (simp add: osr_levels_bounded_def)
  show ?thesis
    using bounded stored mono
    by (auto simp: osr_step_def osr_levels_bounded_def write_osr_loop_nesting_level_def)
qed

lemma arm_osr_step:
  assumes bounded: "osr_levels_bounded isolate"
  shows "osr_step (0 \<le> sint n \<and> sint n \<le> 2147483392) isolate
           (write_osr_loop_nesting_level b
              (std_min (osr_loop_nesting_level (bytecode_arrays isolate b) + n)
                 (kMaxLoopNestingMarker isolate))
              isolate)"
  using bounded
proof (rule write_osr_step)
  let ?level = "osr_loop_nesting_level (bytecode_arrays isolate b)"
  let ?kmax = "kMaxLoopNestingMarker isolate"
  have range: "sint ?level \<le> sint ?kmax" "sint ?kmax \<le> 255"
    using bounded by (auto simp: osr_levels_bounded_def)
  assume "0 \<le> sint n \<and> sint n \<le> 2147483392"
  then show "sint ?level
         \<le> sint (osr_loop_nesting_level
                   (set_osr_loop_nesting_level ?kmax (bytecode_arrays isolate b)
                      (std_min (?level + n) ?kmax)))"
    using range by (intro armed_level) auto
qed

lemma AttemptOnStackReplacement_osr_step:
  assumes bounded: "osr_levels_bounded isolate"
    and run: "AttemptOnStackReplacement isolate frame n = Inr isolate'"
  shows "osr_step (0 \<le> sint n \<and> sint n \<le> 2147483392) isolate isolate'"
proof -
  let ?ok = "0 \<le> sint n \<and> sint n \<le> 2147483392"
  let ?b = "frame_bytecode_array frame"
  let ?traced = "emit (TraceOSRArmingBackEdges (frame_function frame)) isolate"
  consider (same) "isolate' = isolate"
    | (armed) "isolate' = write_osr_loop_nesting_level ?b
                 (std_min (osr_loop_nesting_level (bytecode_arrays isolate ?b) + n)
                    (kMaxLoopNestingMarker isolate)) isolate"
    | (traced) "isolate' = write_osr_loop_nesting_level ?b
                 (std_min (osr_loop_nesting_level (bytecode_arrays ?traced ?b) + n)
                    (kMaxLoopNestingMarker ?traced)) ?traced"
    using run
    by (auto simp: AttemptOnStackReplacement_def Let_def split: if_splits)
  then show ?thesis
  proof cases
    case same
    with bounded show ?thesis by (simp add: osr_step_refl)
  next
    case armed
    with arm_osr_step [OF bounded, of n ?b] show ?thesis by simp
  next
    case traced
    note first = emit_osr_step [OF bounded, of True "TraceOSRArmingBackEdges (frame_function frame)"]
    note b1 = osr_step_bounded [OF bounded first]
    from osr_step_trans [OF first arm_osr_step [OF b1, of n ?b]]
    show ?thesis unfolding traced by simp
  qed
qed

lemma MaybeOSR_osr_step:
  assumes "osr_levels_bounded isolate"
    and "MaybeOSR isolate function frame = Inr (isolate', r)"
  shows "osr_step True isolate isolate'"
proof -
  from assms(2) have "isolate' = isolate \<or> AttemptOnStackReplacement isolate frame 1 = Inr isolate'"
    by (auto simp: MaybeOSR_def Let_def split: option.splits if_splits sum.splits)
  then show ?thesis
  proof
    assume "isolate' = isolate"
    with assms(1) show ?thesis by (simp add: osr_step_refl)
  next
    assume "AttemptOnStackReplacement isolate frame 1 = Inr isolate'"
    from AttemptOnStackReplacement_osr_step [OF assms(1) this]
    show ?thesis by simp
  qed
qed

text \<open>
  The decision writes a level only on the OSR code cache path, on the bytecode array of a
  shared info that has entries in the cache.
\<close>

lemma ShouldOptimize_osr_step:
  assumes bounded: "osr_levels_bounded isolate"
    and run: "ShouldOptimize isolate function kind frame = Inr (isolate', d)"
  shows "osr_step True isolate isolate'"
proof (cases "osr_cache_hit isolate function frame")
  case None
  with run have "isolate' = isolate \<or> (\<exists>e. isolate' = emit e isolate)"
    by (auto simp: ShouldOptimize_def Let_def split: option.splits if_splits sum.splits)
  with bounded show ?thesis by (auto simp: osr_step_refl emit_osr_step)
next
  case (Some jump_offset)
  let ?b = "bytecode_array (shared_infos isolate (shared (js_functions isolate function)))"
  let ?operand = "GetImmediateOperand (bytecode_arrays isolate ?b) jump_offset 1"
  from Some have owned: "cached_shared_info_owns isolate ?b"
    by (auto simp: osr_cache_hit_def cached_shared_info_owns_def Let_def
        osr_code_cache_state_gt_kNotCached_def split: if_splits)
  from run Some have
    "isolate' = isolate \<or> isolate' = write_osr_loop_nesting_level ?b (?operand + 1) isolate"
    by (auto simp: ShouldOptimize_def Let_def GetBytecodeArray_def split: if_splits)
  then show ?thesis
  proof
    assume "isolate' = isolate"
    with bounded show ?thesis by (simp add: osr_step_refl)
  next
    assume w: "isolate' = write_osr_loop_nesting_level ?b (?operand + 1) isolate"
    show ?thesis
      unfolding w using bounded
    proof (rule write_osr_step)
      assume "\<not> cached_shared_info_owns isolate ?b"
      with owned show "sint (osr_loop_nesting_level (bytecode_arrays isolate ?b))
           \<le> sint (osr_loop_nesting_level
                     (set_osr_loop_nesting_level (kMaxLoopNestingMarker isolate)
                        (bytecode_arrays isolate ?b) (?operand + 1)))"
        by simp
    qed
  qed
qed

lemma Optimize_osr_step:
  assumes "osr_levels_bounded isolate"
    and "Optimize isolate function kind d = Inr isolate'"
  shows "osr_step True isolate isolate'"
  using assms(1)
proof (rule osr_step_same_arrays)
  show "kMaxLoopNestingMarker isolate' = kMaxLoopNestingMarker isolate"
    and "bytecode_arrays isolate' = bytecode_arrays isolate"
    and "\<forall>s. osr_code_cache_state (shared_infos isolate' s)
           = osr_code_cache_state (shared_infos isolate s)"
    and "\<forall>s. bytecode_array (shared_infos isolate' s)
           = bytecode_array (shared_infos isolate s)"
    using assms(2)
    by (auto simp: Optimize_def MarkForOptimization_def emit_def Let_def split: if_splits)
qed

lemma MaybeOptimizeFrame_osr_step:
  assumes bounded: "osr_levels_bounded isolate"
    and run: "MaybeOptimizeFrame isolate function frame kind = Inr isolate'"
  shows "osr_step True isolate isolate'"
proof (cases "IsInOptimizationQueue (js_functions isolate function) \<or>
    (FLAG_testing_d8_test_runner (flags isolate) \<and>
       \<not> IsHeuristicOptimizationAllowed isolate function) \<or>
    optimization_disabled (shared_infos isolate (shared (js_functions isolate function)))")
  case True
  with run have "isolate' = isolate \<or> (\<exists>e. isolate' = emit e isolate)"
    by (auto simp: MaybeOptimizeFrame_def Let_def split: if_splits)
  with bounded show ?thesis by (auto simp: osr_step_refl emit_osr_step)
next
  case False
  define osr_part where "osr_part =
     (if is_unoptimized frame
      then (if FLAG_always_osr (flags isolate)
            then (case AttemptOnStackReplacement isolate frame (kMaxLoopNestingMarker isolate) of
                    Inl e \<Rightarrow> Inl e
                  | Inr isolate1 \<Rightarrow> Inr (isolate1, False))
            else MaybeOSR isolate function frame)
      else Inr (isolate, False))"
  from False have "MaybeOptimizeFrame isolate function frame kind = (case osr_part of
        Inl e \<Rightarrow> Inl e
      | Inr (isolate1, osr_only) \<Rightarrow>
          if osr_only then Inr isolate1
          else (case ShouldOptimize isolate1 function kind frame of
                  Inl e \<Rightarrow> Inl e
                | Inr (isolate2, d) \<Rightarrow>
                    if should_optimize d then Optimize isolate2 function kind d
                    else Inr isolate2))"
    unfolding osr_part_def by (auto simp: MaybeOptimizeFrame_def Let_def)
  with run have all: "(case osr_part of
        Inl e \<Rightarrow> Inl e
      | Inr (isolate1, osr_only) \<Rightarrow>
          if osr_only then Inr isolate1
          else (case ShouldOptimize isolate1 function kind frame of
                  Inl e \<Rightarrow> Inl e
                | Inr (isolate2, d) \<Rightarrow>
                    if should_optimize d then Optimize isolate2 function kind d
                    else Inr isolate2)) = Inr isolate'"
    by simp
  then obtain isolate1 r where part: "osr_part = Inr (isolate1, r)"
    by (cases osr_part) auto
  have kmax: "0 \<le> sint (kMaxLoopNestingMarker isolate) \<and>
    sint (kMaxLoopNestingMarker isolate) \<le> 2147483392"
    using bounded by (auto simp: osr_levels_bounded_def)
  from part have "isolate1 = isolate
      \<or> AttemptOnStackReplacement isolate frame (kMaxLoopNestingMarker isolate) = Inr isolate1
      \<or> MaybeOSR isolate function frame = Inr (isolate1, r)"
    unfolding osr_part_def by (auto split: if_splits sum.splits)
  then have first: "osr_step True isolate isolate1"
  proof (elim disjE)
    assume "isolate1 = isolate"
    with bounded show ?thesis by (simp add: osr_step_refl)
  next
    assume "AttemptOnStackReplacement isolate frame (kMaxLoopNestingMarker isolate)
              = Inr isolate1"
    from AttemptOnStackReplacement_osr_step [OF bounded this] kmax show ?thesis by simp
  next
    assume "MaybeOSR isolate function frame = Inr (isolate1, r)"
    with bounded show ?thesis by (rule MaybeOSR_osr_step)
  qed
  note b1 = osr_step_bounded [OF bounded first]
  show ?thesis
  proof (cases r)
    case True
    with all part have "isolate' = isolate1" by simp
    with first show ?thesis by simp
  next
    case False
    with all part obtain isolate2 d where
      so: "ShouldOptimize isolate1 function kind frame = Inr (isolate2, d)"
      by (cases "ShouldOptimize isolate1 function kind frame") auto
    with all part False have
      fin: "(if should_optimize d then Optimize isolate2 function kind d else Inr isolate2)
              = Inr isolate'"
      by simp
    note second = ShouldOptimize_osr_step [OF b1 so]
    note b2 = osr_step_bounded [OF b1 second]
    show ?thesis
    proof (cases "should_optimize d")
      case True
      with fin have "Optimize isolate2 function kind d = Inr isolate'" by simp
      from first second Optimize_osr_step [OF b2 this] show ?thesis
        by (blast intro: osr_step_trans_True)
    next
      case False
      with fin have "isolate' = isolate2" by simp
      with first second show ?thesis by (blast intro: osr_step_trans_True)
    qed
  qed
qed

lemma OnInterruptTick_osr_step:
  assumes bounded: "osr_levels_bounded isolate"
    and run: "OnInterruptTick isolate function = Inr isolate'"
  shows "osr_step True isolate isolate'"
  using OnInterruptTick_shape [OF run]
proof (elim disjE conjE exE)
  assume "bookkeeping_only isolate isolate'"
  with bounded show ?thesis by (rule bookkeeping_only_osr_step)
next
  fix isolate3 frame kind isolate4
  assume b: "bookkeeping_only isolate isolate3"
    and m: "MaybeOptimizeFrame isolate3 function frame kind = Inr isolate4"
    and e: "isolate' = OnInterruptTickScope_exit isolate4"
  note first = bookkeeping_only_osr_step [OF bounded b, of True]
  note b3 = osr_step_bounded [OF bounded first]
  note second = MaybeOptimizeFrame_osr_step [OF b3 m]
  note b4 = osr_step_bounded [OF b3 second]
  have "osr_step True isolate4 isolate'"
    using b4 unfolding e
    by (rule osr_step_same_arrays) (simp_all add: OnInterruptTickScope_exit_def)
  with first second show ?thesis by (blast intro: osr_step_trans_True)
qed

lemma apply_operation_osr_step:
  assumes "osr_levels_bounded isolate"
    and "apply_operation isolate operation = Inr isolate'"
  shows "osr_step (operation_well_formed operation) isolate isolate'"
proof (cases operation)
  case (OpOnInterruptTick f)
  with assms show ?thesis by (simp add: OnInterruptTick_osr_step)
next
  case (OpMaybeOptimizeFrame f frame kind)
  with assms show ?thesis by (simp add: MaybeOptimizeFrame_osr_step)
next
  case (OpShouldOptimize f kind frame)
  with assms(2) obtain d where "ShouldOptimize isolate f kind frame = Inr (isolate', d)"
    by (auto split: sum.splits)
  with assms(1) have "osr_step True isolate isolate'" by (rule ShouldOptimize_osr_step)
  with OpShouldOptimize show ?thesis by simp
next
  case (OpAttemptOnStackReplacement frame n)
  with assms AttemptOnStackReplacement_osr_step [of isolate frame n isolate']
  show ?thesis by simp
qed

lemma run_operations_osr_step:
  assumes "osr_levels_bounded isolate"
    and "run_operations isolate operations = Inr isolate'"
  shows "osr_step (list_all operation_well_formed operations) isolate isolate'"
  using assms
proof (induction operations arbitrary: isolate)
  case Nil
  then show ?case by (simp add: osr_step_refl)
next
  case (Cons operation operations)
  from Cons.prems(2) obtain isolate1 where
    first: "apply_operation isolate operation = Inr isolate1"
    and rest: "run_operations isolate1 operations = Inr isolate'"
    by (auto split: sum.splits)
  note step = apply_operation_osr_step [OF Cons.prems(1) first]
  note b1 = osr_step_bounded [OF Cons.prems(1) step]
  from osr_step_trans [OF step Cons.IH [OF b1 rest]] show ?case by simp
qed

text \<open>
  Claim C4, amended. Take an isolate in which the marker fits the 8-bit field and every
  level is within it. Over every sequence of controller operations, at every later moment
  the OSR loop nesting level of every bytecode array is at most the marker, which does not
  change; and between any two moments the level of a bytecode array that is not the
  bytecode of a shared info with entries in the OSR code cache does not decrease, as long
  as \<open>AttemptOnStackReplacement\<close> is asked in between for a number of levels that is not
  negative and does not overflow.
\<close>

theorem osr_level_bounded_and_monotone_outside_cache:
  assumes "osr_levels_bounded isolate"
    and "run_operations isolate earlier = Inr isolate1"
    and "run_operations isolate1 later = Inr isolate2"
  shows "sint (osr_loop_nesting_level (bytecode_arrays isolate2 b))
           \<le> sint (kMaxLoopNestingMarker isolate2)
       \<and> kMaxLoopNestingMarker isolate2 = kMaxLoopNestingMarker isolate
       \<and> (list_all operation_well_formed later \<and> \<not> cached_shared_info_owns isolate b \<longrightarrow>
            sint (osr_loop_nesting_level (bytecode_arrays isolate1 b))
              \<le> sint (osr_loop_nesting_level (bytecode_arrays isolate2 b)))"
proof -
  note first = run_operations_osr_step [OF assms(1,2)]
  note b1 = osr_step_bounded [OF assms(1) first]
  note second = run_operations_osr_step [OF b1 assms(3)]
  have "cached_shared_info_owns isolate1 b = cached_shared_info_owns isolate b"
    using first by (rule osr_step_owns)
  with first second show ?thesis
    by (simp add: osr_step_def)
qed

lemmas run_defs = osr_level_after_def tick_defs osr_defs

text \<open>
  Claim C4 as stated fails on the OSR code cache path of \<open>ShouldOptimize\<close>, which assigns
  operand 1 of the cached \<open>JumpLoop\<close> plus one whatever the level was. In scenario S5,
  after \<open>AttemptOnStackReplacement\<close> with 6 levels the level is 6, and the following
  \<open>ShouldOptimize\<close> lowers it to 3. The same happens with the per-frame decision alone:
  four decisions on the marked closure arm the shared bytecode array up to level 4, and
  the decision on the unmarked closure, which hits the OSR code cache, sets it to 3.
  Without any cache entry, \<open>AttemptOnStackReplacement\<close> asked for \<open>-1\<close> levels lowers the
  level from 6 to 5.
\<close>

theorem osr_level_monotone_counterexample:
  "osr_level_after scenario_S5 [OpAttemptOnStackReplacement example_frame 6] 0 = Inr 6
   \<and> osr_level_after scenario_S5
        [OpAttemptOnStackReplacement example_frame 6,
         OpShouldOptimize 0 INTERPRETED_FUNCTION example_frame] 0 = Inr 3
   \<and> osr_level_after scenario_two_closures
        [OpMaybeOptimizeFrame 0 (frame_of_closure 0) INTERPRETED_FUNCTION,
         OpMaybeOptimizeFrame 0 (frame_of_closure 0) INTERPRETED_FUNCTION,
         OpMaybeOptimizeFrame 0 (frame_of_closure 0) INTERPRETED_FUNCTION,
         OpMaybeOptimizeFrame 0 (frame_of_closure 0) INTERPRETED_FUNCTION] 0 = Inr 4
   \<and> osr_level_after scenario_two_closures
        [OpMaybeOptimizeFrame 0 (frame_of_closure 0) INTERPRETED_FUNCTION,
         OpMaybeOptimizeFrame 0 (frame_of_closure 0) INTERPRETED_FUNCTION,
         OpMaybeOptimizeFrame 0 (frame_of_closure 0) INTERPRETED_FUNCTION,
         OpMaybeOptimizeFrame 0 (frame_of_closure 0) INTERPRETED_FUNCTION,
         OpMaybeOptimizeFrame 1 (frame_of_closure 1) INTERPRETED_FUNCTION] 0 = Inr 3
   \<and> osr_level_after (scenario_marked 0 200)
        [OpAttemptOnStackReplacement example_frame 6] 0 = Inr 6
   \<and> osr_level_after (scenario_marked 0 200)
        [OpAttemptOnStackReplacement example_frame 6,
         OpAttemptOnStackReplacement example_frame (- 1)] 0 = Inr 5"
proof -
  have explicit: "osr_level_after scenario_S5
        [OpAttemptOnStackReplacement example_frame 6] 0 = Inr 6
     \<and> osr_level_after scenario_S5
        [OpAttemptOnStackReplacement example_frame 6,
         OpShouldOptimize 0 INTERPRETED_FUNCTION example_frame] 0 = Inr 3"
    by (simp add: scenario_S5_def example_defs run_defs decision_defs)
  have closures: "osr_level_after scenario_two_closures
        [OpMaybeOptimizeFrame 0 (frame_of_closure 0) INTERPRETED_FUNCTION,
         OpMaybeOptimizeFrame 0 (frame_of_closure 0) INTERPRETED_FUNCTION,
         OpMaybeOptimizeFrame 0 (frame_of_closure 0) INTERPRETED_FUNCTION,
         OpMaybeOptimizeFrame 0 (frame_of_closure 0) INTERPRETED_FUNCTION] 0 = Inr 4
     \<and> osr_level_after scenario_two_closures
        [OpMaybeOptimizeFrame 0 (frame_of_closure 0) INTERPRETED_FUNCTION,
         OpMaybeOptimizeFrame 0 (frame_of_closure 0) INTERPRETED_FUNCTION,
         OpMaybeOptimizeFrame 0 (frame_of_closure 0) INTERPRETED_FUNCTION,
         OpMaybeOptimizeFrame 0 (frame_of_closure 0) INTERPRETED_FUNCTION,
         OpMaybeOptimizeFrame 1 (frame_of_closure 1) INTERPRETED_FUNCTION] 0 = Inr 3"
    by (simp add: scenario_two_closures_def frame_of_closure_def example_defs run_defs
        decision_defs)
  have negative: "osr_level_after (scenario_marked 0 200)
        [OpAttemptOnStackReplacement example_frame 6] 0 = Inr 6
     \<and> osr_level_after (scenario_marked 0 200)
        [OpAttemptOnStackReplacement example_frame 6,
         OpAttemptOnStackReplacement example_frame (- 1)] 0 = Inr 5"
    by (simp add: scenario_marked_def example_defs run_defs)
  from explicit closures negative show ?thesis by simp
qed

text \<open>
  A marked function without cache entries, after a tick and then over an explicit arming
  with 6 levels and another decision: the level has not decreased and is within the marker.
  And scenario S5 with a second bytecode array that is armed by hand: the cache path stores
  3 in the array of the cached shared info, within the marker 6, and the level of the other
  array does not decrease.
\<close>

theorem osr_level_bounded_and_monotone_outside_cache_witness:
  "(\<exists>isolate1 isolate2.
      run_operations (scenario_marked 0 119) [OpOnInterruptTick 0] = Inr isolate1 \<and>
      run_operations isolate1
        [OpAttemptOnStackReplacement example_frame 6,
         OpMaybeOptimizeFrame 0 example_frame INTERPRETED_FUNCTION] = Inr isolate2 \<and>
      sint (osr_loop_nesting_level (bytecode_arrays isolate2 0)) \<le> 6 \<and>
      sint (osr_loop_nesting_level (bytecode_arrays isolate1 0))
        \<le> sint (osr_loop_nesting_level (bytecode_arrays isolate2 0)))
   \<and> (\<exists>isolate1 isolate2.
      run_operations scenario_S5 [OpAttemptOnStackReplacement (frame_on_array 1) 2]
        = Inr isolate1 \<and>
      run_operations isolate1
        [OpShouldOptimize 0 INTERPRETED_FUNCTION example_frame,
         OpAttemptOnStackReplacement (frame_on_array 1) 1] = Inr isolate2 \<and>
      sint (osr_loop_nesting_level (bytecode_arrays isolate2 0)) \<le> 6 \<and>
      sint (osr_loop_nesting_level (bytecode_arrays isolate2 1)) \<le> 6 \<and>
      sint (osr_loop_nesting_level (bytecode_arrays isolate1 1))
        \<le> sint (osr_loop_nesting_level (bytecode_arrays isolate2 1)))"
proof -
  let ?later = "[OpAttemptOnStackReplacement example_frame 6,
         OpMaybeOptimizeFrame 0 example_frame INTERPRETED_FUNCTION]"
  let ?later5 = "[OpShouldOptimize 0 INTERPRETED_FUNCTION example_frame,
         OpAttemptOnStackReplacement (frame_on_array 1) 1]"
  have bounded: "osr_levels_bounded (scenario_marked 0 119)"
    by (simp add: osr_levels_bounded_def scenario_marked_def example_defs osr_defs)
  have not_owned: "\<not> cached_shared_info_owns (scenario_marked 0 119) 0"
    by (simp add: cached_shared_info_owns_def scenario_marked_def example_defs)
  have kmax: "kMaxLoopNestingMarker (scenario_marked 0 119) = 6"
    "kMaxLoopNestingMarker scenario_S5 = 6"
    by (simp_all add: scenario_marked_def scenario_S5_def example_defs)
  have "\<exists>a c. run_operations (scenario_marked 0 119) [OpOnInterruptTick 0] = Inr a \<and>
           run_operations a ?later = Inr c"
    by (simp add: scenario_marked_def example_defs run_defs decision_defs)
  then obtain a c where a: "run_operations (scenario_marked 0 119) [OpOnInterruptTick 0] = Inr a"
    and c: "run_operations a ?later = Inr c"
    by blast
  have first: "sint (osr_loop_nesting_level (bytecode_arrays c 0)) \<le> 6 \<and>
      sint (osr_loop_nesting_level (bytecode_arrays a 0))
        \<le> sint (osr_loop_nesting_level (bytecode_arrays c 0))"
    using osr_level_bounded_and_monotone_outside_cache [OF bounded a c, of 0] not_owned kmax
    by auto
  have bounded5: "osr_levels_bounded scenario_S5"
    by (simp add: osr_levels_bounded_def scenario_S5_def example_defs osr_defs)
  have not_owned5: "\<not> cached_shared_info_owns scenario_S5 1"
    by (simp add: cached_shared_info_owns_def scenario_S5_def example_defs)
  have "\<exists>a c. run_operations scenario_S5
             [OpAttemptOnStackReplacement (frame_on_array 1) 2] = Inr a \<and>
           run_operations a ?later5 = Inr c"
    by (simp add: scenario_S5_def frame_on_array_def example_defs run_defs decision_defs)
  then obtain a5 c5 where a5: "run_operations scenario_S5
        [OpAttemptOnStackReplacement (frame_on_array 1) 2] = Inr a5"
    and c5: "run_operations a5 ?later5 = Inr c5"
    by blast
  have second: "sint (osr_loop_nesting_level (bytecode_arrays c5 0)) \<le> 6 \<and>
      sint (osr_loop_nesting_level (bytecode_arrays c5 1)) \<le> 6 \<and>
      sint (osr_loop_nesting_level (bytecode_arrays a5 1))
        \<le> sint (osr_loop_nesting_level (bytecode_arrays c5 1))"
    using osr_level_bounded_and_monotone_outside_cache [OF bounded5 a5 c5, of 0]
      osr_level_bounded_and_monotone_outside_cache [OF bounded5 a5 c5, of 1] not_owned5 kmax
    by auto
  from a c first a5 c5 second show ?thesis by blast
qed

section \<open>Properties of the builtins registry\<close>

lemmas builtins_defs = GetContinuationBytecodeOffset_def GetBuiltinFromBytecodeOffset_def
  KindOf_def FromInt_def IsBuiltinId_def kBuiltinCount_def ToInt_def is_continuation_kind_def

text \<open>
  Claim C8. For every builtin of kind TFJ, TFC or TFS, \<open>GetContinuationBytecodeOffset\<close>
  returns \<open>kFirstBuiltinContinuationId + ToInt(builtin)\<close> and
  \<open>GetBuiltinFromBytecodeOffset\<close> of that offset returns the builtin; for every offset
  that \<open>GetContinuationBytecodeOffset\<close> returns, \<open>GetBuiltinFromBytecodeOffset\<close> returns
  the offset minus \<open>kFirstBuiltinContinuationId\<close>, whose continuation offset is the offset
  again.
\<close>

theorem continuation_offset_roundtrip:
  "(KindOf static builtin = Inr k \<and> (k = TFJ \<or> k = TFC \<or> k = TFS) \<longrightarrow>
      GetContinuationBytecodeOffset static builtin
        = Inr (kFirstBuiltinContinuationId static + ToInt builtin) \<and>
      GetBuiltinFromBytecodeOffset static (kFirstBuiltinContinuationId static + ToInt builtin)
        = Inr builtin)
   \<and> (GetContinuationBytecodeOffset static builtin = Inr offset \<longrightarrow>
        GetBuiltinFromBytecodeOffset static offset
          = Inr (offset - kFirstBuiltinContinuationId static) \<and>
        GetContinuationBytecodeOffset static (offset - kFirstBuiltinContinuationId static)
          = Inr offset)"
  by (auto simp: builtins_defs split: if_splits sum.splits)

text \<open>In the example registry the builtins 1 (TFJ) and 3 (TFS) have the offsets 2 and 4.\<close>

theorem continuation_offset_roundtrip_witness:
  "GetContinuationBytecodeOffset example_static 1 = Inr 2
   \<and> GetBuiltinFromBytecodeOffset example_static 2 = Inr 1
   \<and> GetContinuationBytecodeOffset example_static 3 = Inr 4
   \<and> GetBuiltinFromBytecodeOffset example_static 4 = Inr 3"
proof -
  have "KindOf example_static 1 = Inr TFJ" and "KindOf example_static 3 = Inr TFS"
    by (simp_all add: example_static_def builtins_defs)
  with continuation_offset_roundtrip [of example_static 1 TFJ]
    continuation_offset_roundtrip [of example_static 3 TFS]
  show ?thesis by (simp add: example_static_def ToInt_def)
qed

lemma sint_eq_iff32: "sint (a :: int32) = sint b \<longleftrightarrow> a = b"
  by (auto intro: signed_word_eqI)

lemma set_code_Inr:
  assumes "set_code static isolate builtin code_ptr = Inr isolate'"
  shows "code_objects isolate' = code_objects isolate
       \<and> builtin_table isolate' = builtin_table isolate
       \<and> builtin_id (code_objects isolate code_ptr) = builtin
       \<and> slots isolate' = (slots isolate)(builtin_table isolate + sint builtin := code_ptr)"
  using assms by (auto simp: set_code_def ToInt_def split: if_splits)

lemma install_all_invariant:
  "install_all static isolate installs = Inr isolate' \<Longrightarrow>
   code_objects isolate' = code_objects isolate \<and>
   builtin_table isolate' = builtin_table isolate \<and>
   (\<forall>builtin.
      (builtin \<in> fst ` set installs \<longrightarrow> builtin_id (code isolate' builtin) = builtin) \<and>
      (builtin \<notin> fst ` set installs \<longrightarrow>
         slots isolate' (builtin_table isolate + sint builtin)
           = slots isolate (builtin_table isolate + sint builtin)))"
proof (induction installs arbitrary: isolate)
  case Nil
  then show ?case by simp
next
  case (Cons install installs)
  obtain b c where install: "install = (b, c)" by (cases install)
  from Cons.prems install obtain isolate1 where
    first: "set_code static isolate b c = Inr isolate1"
    and rest: "install_all static isolate1 installs = Inr isolate'"
    by (auto split: sum.splits)
  note s = set_code_Inr [OF first]
  note ih = Cons.IH [OF rest]
  show ?case
  proof (intro conjI allI impI)
    show "code_objects isolate' = code_objects isolate" using ih s by simp
    show "builtin_table isolate' = builtin_table isolate" using ih s by simp
  next
    fix builtin
    assume "builtin \<in> fst ` set (install # installs)"
    then consider "builtin \<in> fst ` set installs" | "builtin = b" "builtin \<notin> fst ` set installs"
      using install by auto
    then show "builtin_id (code isolate' builtin) = builtin"
    proof cases
      case 1
      with ih show ?thesis by blast
    next
      case 2
      with ih have "slots isolate' (builtin_table isolate1 + sint builtin)
                      = slots isolate1 (builtin_table isolate1 + sint builtin)" by blast
      with s 2 ih show ?thesis
        by (simp add: code_def ToInt_def)
    qed
  next
    fix builtin
    assume out: "builtin \<notin> fst ` set (install # installs)"
    with install have "builtin \<noteq> b" and "builtin \<notin> fst ` set installs" by auto
    with ih s show "slots isolate' (builtin_table isolate + sint builtin)
                      = slots isolate (builtin_table isolate + sint builtin)"
      by (simp add: sint_eq_iff32)
  qed
qed

text \<open>
  Claim C9. After an initialization in which every call of \<open>set_code\<close> met its
  precondition, the code object in the slot of every installed builtin carries the id of
  that builtin. For every builtin id in \<open>[first, last]\<close> the handle \<open>code_handle\<close>
  produces lies inside the builtin table and \<open>IsBuiltinHandle\<close> returns true with exactly
  that id; for a handle located outside the table's range it returns false and leaves the
  out-parameter as it was.
\<close>

theorem builtin_table_identity:
  "(install_all static isolate installs = Inr isolate' \<and> builtin \<in> fst ` set installs \<longrightarrow>
      builtin_id (code isolate' builtin) = builtin)
   \<and> (IsBuiltinId static builtin \<longrightarrow>
        builtin_table isolate \<le> code_handle isolate builtin \<and>
        code_handle isolate builtin < builtin_table isolate + kBuiltinCount static \<and>
        IsBuiltinHandle static isolate (code_handle isolate builtin) builtin0
          = Inr (True, builtin))
   \<and> (handle_location < builtin_table isolate \<or>
      builtin_table isolate + kBuiltinCount static \<le> handle_location \<longrightarrow>
        IsBuiltinHandle static isolate handle_location builtin0 = Inr (False, builtin0))"
proof (intro conjI impI)
  assume "install_all static isolate installs = Inr isolate' \<and> builtin \<in> fst ` set installs"
  then show "builtin_id (code isolate' builtin) = builtin"
    using install_all_invariant [of static isolate installs isolate'] by blast
next
  assume "IsBuiltinId static builtin"
  then show "builtin_table isolate \<le> code_handle isolate builtin"
    and "code_handle isolate builtin < builtin_table isolate + kBuiltinCount static"
    and "IsBuiltinHandle static isolate (code_handle isolate builtin) builtin0
          = Inr (True, builtin)"
    by (simp_all add: IsBuiltinHandle_def code_handle_def ToInt_def IsBuiltinId_def FromInt_def
        Let_def)
next
  assume "handle_location < builtin_table isolate \<or>
      builtin_table isolate + kBuiltinCount static \<le> handle_location"
  then show "IsBuiltinHandle static isolate handle_location builtin0 = Inr (False, builtin0)"
    by (auto simp: IsBuiltinHandle_def Let_def)
qed

text \<open>The example registry, initialized with one code object for each of its seven builtins.\<close>

lemma example_install:
  "\<exists>isolate'. install_all example_static example_builtins_isolate example_installs = Inr isolate'"
  by (simp add: example_installs_def example_static_def example_builtins_isolate_def
      set_code_def ToInt_def)

theorem builtin_table_identity_witness:
  "(\<exists>isolate'. install_all example_static example_builtins_isolate example_installs
        = Inr isolate' \<and>
      builtin_id (code isolate' 0) = 0 \<and> builtin_id (code isolate' 3) = 3 \<and>
      builtin_id (code isolate' 6) = 6 \<and>
      IsBuiltinHandle example_static isolate' (code_handle isolate' 6) 0 = Inr (True, 6))
   \<and> IsBuiltinHandle example_static example_builtins_isolate 999 5 = Inr (False, 5)
   \<and> IsBuiltinHandle example_static example_builtins_isolate 1007 5 = Inr (False, 5)"
proof -
  obtain isolate' where
    run: "install_all example_static example_builtins_isolate example_installs = Inr isolate'"
    using example_install by blast
  have installed: "(0::int32) \<in> fst ` set example_installs"
    "(3::int32) \<in> fst ` set example_installs" "(6::int32) \<in> fst ` set example_installs"
    by (simp_all add: example_installs_def)
  have id6: "IsBuiltinId example_static 6"
    by (simp add: IsBuiltinId_def kBuiltinCount_def example_static_def)
  have "builtin_id (code isolate' 0) = 0"
    using builtin_table_identity
      [of example_static example_builtins_isolate example_installs isolate' 0]
      run installed by simp
  moreover have "builtin_id (code isolate' 3) = 3"
    using builtin_table_identity
      [of example_static example_builtins_isolate example_installs isolate' 3]
      run installed by simp
  moreover have "builtin_id (code isolate' 6) = 6"
    using builtin_table_identity
      [of example_static example_builtins_isolate example_installs isolate' 6]
      run installed by simp
  moreover have "IsBuiltinHandle example_static isolate' (code_handle isolate' 6) 0
      = Inr (True, 6)"
    using builtin_table_identity [where static = example_static and isolate = isolate'
        and builtin = 6 and ?builtin0.0 = 0] id6
    by simp
  moreover have "IsBuiltinHandle example_static example_builtins_isolate 999 5 = Inr (False, 5)"
    using builtin_table_identity [where static = example_static
        and isolate = example_builtins_isolate and handle_location = 999 and ?builtin0.0 = 5]
    by (simp add: example_builtins_isolate_def)
  moreover have "IsBuiltinHandle example_static example_builtins_isolate 1007 5 = Inr (False, 5)"
    using builtin_table_identity [where static = example_static
        and isolate = example_builtins_isolate and handle_location = 1007 and ?builtin0.0 = 5]
    by (simp add: example_builtins_isolate_def example_static_def kBuiltinCount_def)
  ultimately show ?thesis using run by blast
qed

end
